theory Spec2Isabelle
  imports Main
begin

section \<open>Data model (app/api/models.py)\<close>

text \<open>
  Python \<open>str\<close> values are modelled as \<open>string\<close>; one \<open>char\<close> stands for one code
  point, which is what \<open>len\<close> and slicing count. Field names that clash with Isabelle
  keywords or HOL constants carry the suffix \<open>_field\<close> (\<open>text\<close>, \<open>id\<close>, \<open>image\<close>,
  \<open>values\<close>).
\<close>

datatype exn =
    ValueError string
  | ValidationError string
  | AttributeError string
  | KeyError string
  | TypeError string
  | JSONDecodeError string
  | RecursionError string
  | ServiceError string

fun str_of :: "exn \<Rightarrow> string" where
  "str_of (ValueError m) = m"
| "str_of (ValidationError m) = m"
| "str_of (AttributeError m) = m"
| "str_of (KeyError m) = m"
| "str_of (TypeError m) = m"
| "str_of (JSONDecodeError m) = m"
| "str_of (RecursionError m) = m"
| "str_of (ServiceError m) = m"

text \<open>What \<^verbatim>\<open>except json.JSONDecodeError\<close> catches.\<close>

fun is_JSONDecodeError :: "exn \<Rightarrow> bool" where
  "is_JSONDecodeError (JSONDecodeError m) = True"
| "is_JSONDecodeError _ = False"

subsection \<open>Python values and \<open>json.dumps\<close>\<close>

text \<open>
  What \<open>.dict()\<close> of a model returns and what a \<open>Dict[str, Any]\<close> may hold: a tree of
  dictionaries and lists whose leaves are Python objects. \<open>PyDatetime\<close> is a
  \<open>datetime\<close>, which \<open>.dict()\<close> keeps as it is; \<open>PyObject ty\<close> is any other object of a
  type \<open>ty\<close> that the JSON encoder does not know.
\<close>

datatype py =
    PyNone
  | PyBool bool
  | PyInt int
  | PyStr string
  | PyList "py list"
  | PyDict "(string \<times> py) list"
  | PyDatetime nat
  | PyObject string

fun first_some :: "'a option list \<Rightarrow> 'a option" where
  "first_some [] = None"
| "first_some (None # xs) = first_some xs"
| "first_some (Some x # xs) = Some x"

text \<open>The type of the first object that \<open>json.dumps\<close> cannot encode, if there is one.\<close>

primrec unencodable :: "py \<Rightarrow> string option" where
  "unencodable PyNone = None"
| "unencodable (PyBool b) = None"
| "unencodable (PyInt i) = None"
| "unencodable (PyStr s) = None"
| "unencodable (PyList xs) = first_some (map unencodable xs)"
| "unencodable (PyDict kvs) = first_some (map snd (map (map_prod id unencodable) kvs))"
| "unencodable (PyDatetime t) = Some ''datetime''"
| "unencodable (PyObject ty) = Some ty"

text \<open>
  \<open>json.dumps(v)\<close> without a \<open>default\<close>: the text of \<open>v\<close>, which stands here as \<open>v\<close>
  itself, or \<open>TypeError\<close>.
\<close>

definition json_dumps :: "py \<Rightarrow> exn + py" where
  "json_dumps v =
     (case unencodable v of
        None \<Rightarrow> Inr v
      | Some ty \<Rightarrow> Inl (TypeError (''Object of type '' @ ty @ '' is not JSON serializable'')))"

definition opt_str :: "string option \<Rightarrow> py" where
  "opt_str x = (case x of None \<Rightarrow> PyNone | Some s \<Rightarrow> PyStr s)"

record company_context =
  cc_name :: string
  cc_description :: string
  cc_values :: "string list"
  target_audience :: "string list"
  cc_tone_of_voice :: string
  industry :: string
  additional_info :: "(string \<times> py) list option"

record brand_hero =
  name :: string
  appearance :: string
  personality :: string
  backstory :: string
  values_field :: "string list"
  tone_of_voice :: string

record post_content =
  text_field :: string
  hashtags :: "string list"
  call_to_action :: "string option"

record post_image =
  image_url :: string
  description :: string
  prompt_used :: "string option"

record post_response =
  id_field :: string
  content :: post_content
  image_field :: "post_image option"
  inspiration :: "(string \<times> string) list option"
  created_at :: nat

text \<open>\<open>.dict()\<close> of the models that the code passes to \<open>json.dumps\<close>.\<close>

definition company_context_dict :: "company_context \<Rightarrow> py" where
  "company_context_dict cc =
     PyDict [(''name'', PyStr (cc_name cc)), (''description'', PyStr (cc_description cc)),
             (''values'', PyList (map PyStr (cc_values cc))),
             (''target_audience'', PyList (map PyStr (target_audience cc))),
             (''tone_of_voice'', PyStr (cc_tone_of_voice cc)), (''industry'', PyStr (industry cc)),
             (''additional_info'',
                case additional_info cc of None \<Rightarrow> PyNone | Some kvs \<Rightarrow> PyDict kvs)]"

definition post_content_dict :: "post_content \<Rightarrow> py" where
  "post_content_dict c =
     PyDict [(''text'', PyStr (text_field c)), (''hashtags'', PyList (map PyStr (hashtags c))),
             (''call_to_action'', opt_str (call_to_action c))]"

definition post_image_dict :: "post_image \<Rightarrow> py" where
  "post_image_dict i =
     PyDict [(''image_url'', PyStr (image_url i)), (''description'', PyStr (description i)),
             (''prompt_used'', opt_str (prompt_used i))]"

definition post_response_dict :: "post_response \<Rightarrow> py" where
  "post_response_dict p =
     PyDict [(''id'', PyStr (id_field p)), (''content'', post_content_dict (content p)),
             (''image'', case image_field p of None \<Rightarrow> PyNone | Some i \<Rightarrow> post_image_dict i),
             (''inspiration'',
                case inspiration p of
                  None \<Rightarrow> PyNone
                | Some kvs \<Rightarrow> PyDict (map (\<lambda>kv. (fst kv, PyStr (snd kv))) kvs)),
             (''created_at'', PyDatetime (created_at p))]"

record post_generation_request =
  company_context :: company_context
  brand_hero :: brand_hero
  num_proposals :: int
  include_trends :: bool
  include_competitors :: bool

text \<open>The two settings of app/config.py that the pipeline reads.\<close>

record settings =
  min_proposals :: int
  max_proposals :: int

definition default_settings :: settings where
  "default_settings = \<lparr>min_proposals = 10, max_proposals = 20\<rparr>"

subsection \<open>Request construction: the \<open>num_proposals\<close> validator\<close>

definition validate_num_proposals :: "int \<Rightarrow> exn + int" where
  "validate_num_proposals v =
     (if v < 1 \<or> v > 20 then Inl (ValueError ''num_proposals must be between 1 and 20'')
      else Inr v)"

text \<open>
  \<open>PostGenerationRequest(...)\<close>: pydantic runs the field validator while the object is
  built, and a \<open>ValueError\<close> raised there surfaces as a validation error of the
  constructor, so no request object exists.
\<close>

definition PostGenerationRequest ::
  "company_context \<Rightarrow> brand_hero \<Rightarrow> int \<Rightarrow> bool \<Rightarrow> bool \<Rightarrow> exn + post_generation_request" where
  "PostGenerationRequest cc bh n tr co =
     (case validate_num_proposals n of
        Inl e \<Rightarrow> Inl (ValidationError (str_of e))
      | Inr v \<Rightarrow> Inr \<lparr>company_context = cc, brand_hero = bh, num_proposals = v,
                     include_trends = tr, include_competitors = co\<rparr>)"

section \<open>Guardrails (app/agents/orchestrator.py)\<close>

definition apply_request_guardrails :: "settings \<Rightarrow> post_generation_request \<Rightarrow> post_generation_request" where
  "apply_request_guardrails st request =
     (let r1 = (if num_proposals request < min_proposals st
                then request\<lparr>num_proposals := min_proposals st\<rparr> else request);
          r2 = (if num_proposals r1 > max_proposals st
                then r1\<lparr>num_proposals := max_proposals st\<rparr> else r1)
      in r2)"

definition apply_post_guardrails :: "post_response \<Rightarrow> post_response" where
  "apply_post_guardrails post =
     (let p1 = (if length (text_field (content post)) > 280
                then post\<lparr>content := (content post)\<lparr>text_field :=
                       take 277 (text_field (content post)) @ ''...''\<rparr>\<rparr>
                else post);
          p2 = (if hashtags (content p1) = [] \<or> length (hashtags (content p1)) = 0
                then p1\<lparr>content := (content p1)\<lparr>hashtags := [''#post'']\<rparr>\<rparr>
                else p1);
          p3 = (if length (hashtags (content p2)) > 5
                then p2\<lparr>content := (content p2)\<lparr>hashtags := take 5 (hashtags (content p2))\<rparr>\<rparr>
                else p2)
      in p3)"

subsection \<open>The three normalisation rules as the specification words them\<close>

definition rule_truncate_text :: "post_content \<Rightarrow> post_content" where
  "rule_truncate_text c =
     (if length (text_field c) > 280 then c\<lparr>text_field := take 277 (text_field c) @ ''...''\<rparr> else c)"

definition rule_default_hashtag :: "post_content \<Rightarrow> post_content" where
  "rule_default_hashtag c = (if hashtags c = [] then c\<lparr>hashtags := [''#post'']\<rparr> else c)"

definition rule_limit_hashtags :: "post_content \<Rightarrow> post_content" where
  "rule_limit_hashtags c =
     (if length (hashtags c) > 5 then c\<lparr>hashtags := take 5 (hashtags c)\<rparr> else c)"

definition compliant :: "post_content \<Rightarrow> bool" where
  "compliant c \<longleftrightarrow>
     length (text_field c) \<le> 280 \<and> 1 \<le> length (hashtags c) \<and> length (hashtags c) \<le> 5"

text \<open>A proposal used to exercise the theorems: 300 characters and six hashtags.\<close>

definition long_post :: post_response where
  "long_post = \<lparr>id_field = ''test-post'',
     content = \<lparr>text_field = replicate 300 CHR ''A'',
                hashtags = [''tag1'', ''tag2'', ''tag3'', ''tag4'', ''tag5'', ''tag6''],
                call_to_action = None\<rparr>,
     image_field = None, inspiration = None, created_at = 0\<rparr>"

definition short_post :: post_response where
  "short_post = \<lparr>id_field = ''mock-post-0'',
     content = \<lparr>text_field = ''Mock post content 0'', hashtags = [''#mock0'', ''#test''],
                call_to_action = None\<rparr>,
     image_field = None, inspiration = None, created_at = 0\<rparr>"

section \<open>Exceptions, JSON values and the external collaborators\<close>

text \<open>
  A Python call either returns a value (\<open>Inr\<close>) or raises an exception (\<open>Inl\<close>).
  \<open>and_then\<close> is statement sequencing; \<open>try_except\<close> is
  \<^verbatim>\<open>try: body  except Exception as e: handler(e)\<close>; \<open>try_except_only\<close> is a handler for
  one class of exceptions, which lets every other exception pass.
\<close>

definition and_then :: "exn + 'a \<Rightarrow> ('a \<Rightarrow> exn + 'b) \<Rightarrow> exn + 'b" where
  "and_then m f = (case m of Inl e \<Rightarrow> Inl e | Inr v \<Rightarrow> f v)"

definition try_except :: "exn + 'a \<Rightarrow> (exn \<Rightarrow> exn + 'a) \<Rightarrow> exn + 'a" where
  "try_except body handler = (case body of Inl e \<Rightarrow> handler e | Inr v \<Rightarrow> Inr v)"

definition try_except_only ::
  "(exn \<Rightarrow> bool) \<Rightarrow> exn + 'a \<Rightarrow> (exn \<Rightarrow> exn + 'a) \<Rightarrow> exn + 'a" where
  "try_except_only caught body handler =
     (case body of Inl e \<Rightarrow> (if caught e then handler e else Inl e) | Inr v \<Rightarrow> Inr v)"

datatype json =
    JNull
  | JBool bool
  | JNum int
  | JStr string
  | JArr "json list"
  | JObj "(string \<times> json) list"

text \<open>
  The calls each agent makes through \<open>BaseAgent.generate_response\<close>. The prompts are
  built from exactly these arguments, so a call is identified by them.
\<close>

datatype llm_call =
    ContextReportCall company_context bool bool
  | ContentBriefCall json brand_hero
  | PostProposalCall string brand_hero int
  | ImageDirectorCall brand_hero post_content

text \<open>
  What the code does not own: the agent SDK behind \<open>generate_response\<close>, the OpenAI
  client behind \<open>OpenAIService.generate_text\<close> (the first choice's message content, which
  the client types as optional) and \<open>OpenAIService.generate_image\<close> (the \<open>url\<close> entry of
  its result, optional as well), \<open>json.loads\<close> (which raises \<open>JSONDecodeError\<close> on text
  that is not JSON, and may raise other exceptions, such as \<open>RecursionError\<close> on deep
  nesting or \<open>ValueError\<close> on an integer of too many digits), \<open>uuid.uuid4\<close> and
  \<open>datetime.now\<close> (read once per proposal number) and the construction of
  \<open>OrchestratorAgent()\<close> (\<open>Some e\<close> when a client or agent constructor raises \<open>e\<close>).
\<close>

record env =
  generate_response :: "llm_call \<Rightarrow> exn + string"
  generate_text :: "brand_hero \<Rightarrow> post_content \<Rightarrow> exn + string option"
  images_generate :: "string \<Rightarrow> exn + string option"
  json_loads :: "string \<Rightarrow> exn + json"
  uuid4 :: "int \<Rightarrow> string"
  now :: "int \<Rightarrow> nat"
  orchestrator_init :: "exn option"

subsection \<open>Formatting an integer, as an f-string does\<close>

definition digit_char :: "nat \<Rightarrow> char" where
  "digit_char d = ''0123456789'' ! d"

fun str_nat :: "nat \<Rightarrow> string" where
  "str_nat n = (if n < 10 then [digit_char n] else str_nat (n div 10) @ [digit_char (n mod 10)])"

declare str_nat.simps [simp del]

definition str_int :: "int \<Rightarrow> string" where
  "str_int i = (if i < 0 then CHR ''-'' # str_nat (nat (- i)) else str_nat (nat i))"

section \<open>ResearchAgent.generate_context_report (app/agents/research.py)\<close>

definition generate_context_report :: "env \<Rightarrow> company_context \<Rightarrow> bool \<Rightarrow> bool \<Rightarrow> exn + json" where
  "generate_context_report ev cc tr co =
     try_except
       (and_then (json_dumps (company_context_dict cc)) (\<lambda>context_json.
        and_then (generate_response ev (ContextReportCall cc tr co)) (\<lambda>response.
        try_except_only is_JSONDecodeError (json_loads ev response)
          (\<lambda>e. Inr (JObj [(''raw_response'', JStr response),
                          (''error'', JStr ''Failed to parse JSON response'')])))))
       (\<lambda>e. Inl e)"

section \<open>ContentAgent (app/agents/content.py)\<close>

definition create_content_brief :: "env \<Rightarrow> json \<Rightarrow> brand_hero \<Rightarrow> exn + string" where
  "create_content_brief ev context_report bh =
     try_except (generate_response ev (ContentBriefCall context_report bh)) (\<lambda>e. Inl e)"

text \<open>
  \<open>d.get(key, default)\<close>: only a JSON object is a \<open>dict\<close> (its keys are distinct);
  anything else has no \<open>get\<close>.
\<close>

fun json_get :: "json \<Rightarrow> string \<Rightarrow> json \<Rightarrow> exn + json" where
  "json_get (JObj kvs) k dflt = Inr (case map_of kvs k of Some v \<Rightarrow> v | None \<Rightarrow> dflt)"
| "json_get _ k dflt = Inl (AttributeError ''object has no attribute get'')"

text \<open>
  The field types of \<open>PostContent\<close> and \<open>PostImage\<close>, as pydantic checks them when the
  object is built: \<open>str\<close>, \<open>List[str]\<close> and \<open>Optional[str]\<close>.
\<close>

fun as_str :: "json \<Rightarrow> string option" where
  "as_str (JStr s) = Some s"
| "as_str _ = None"

fun as_str_list :: "json \<Rightarrow> string list option" where
  "as_str_list (JArr xs) =
     (if list_all (\<lambda>x. as_str x \<noteq> None) xs then Some (map (\<lambda>x. the (as_str x)) xs) else None)"
| "as_str_list _ = None"

fun as_optional_str :: "json \<Rightarrow> string option option" where
  "as_optional_str JNull = Some None"
| "as_optional_str (JStr s) = Some (Some s)"
| "as_optional_str _ = None"

definition PostContent :: "json \<Rightarrow> json \<Rightarrow> json \<Rightarrow> exn + post_content" where
  "PostContent t h c =
     (case (as_str t, as_str_list h, as_optional_str c) of
        (Some t', Some h', Some c') \<Rightarrow> Inr \<lparr>text_field = t', hashtags = h', call_to_action = c'\<rparr>
      | _ \<Rightarrow> Inl (ValidationError ''validation error for PostContent''))"

definition PostImage :: "string option \<Rightarrow> string \<Rightarrow> string option \<Rightarrow> exn + post_image" where
  "PostImage url d pr =
     (case url of
        Some u \<Rightarrow> Inr \<lparr>image_url = u, description = d, prompt_used = pr\<rparr>
      | None \<Rightarrow> Inl (ValidationError ''validation error for PostImage''))"

definition fallback_content :: "int \<Rightarrow> post_content" where
  "fallback_content proposal_num =
     \<lparr>text_field = ''Post proposal #'' @ str_int proposal_num, hashtags = [''#fallback''],
      call_to_action = None\<rparr>"

definition error_content :: "int \<Rightarrow> post_content" where
  "error_content proposal_num =
     \<lparr>text_field = ''Error generating post content for proposal #'' @ str_int proposal_num,
      hashtags = [''#error''], call_to_action = None\<rparr>"

definition brief_excerpt :: "string \<Rightarrow> string" where
  "brief_excerpt content_brief =
     (if length content_brief > 100 then take 100 content_brief @ ''...'' else content_brief)"

text \<open>The body of the \<open>try\<close> in \<open>_generate_post_proposal\<close>.\<close>

definition proposal_attempt :: "env \<Rightarrow> string \<Rightarrow> brand_hero \<Rightarrow> int \<Rightarrow> exn + post_response" where
  "proposal_attempt ev content_brief bh proposal_num =
     and_then (generate_response ev (PostProposalCall content_brief bh proposal_num)) (\<lambda>response.
     and_then
       (try_except_only is_JSONDecodeError
          (and_then (json_loads ev response) (\<lambda>content_json.
           and_then (json_get content_json ''text'' (JStr [])) (\<lambda>t.
           and_then (json_get content_json ''hashtags'' (JArr [])) (\<lambda>h.
           and_then (json_get content_json ''call_to_action'' JNull) (\<lambda>c.
           PostContent t h c)))))
          (\<lambda>e. Inr (fallback_content proposal_num)))
       (\<lambda>post_content.
          Inr \<lparr>id_field = uuid4 ev proposal_num, content = post_content, image_field = None,
               inspiration = Some [(''source'', ''Proposal '' @ str_int proposal_num),
                                   (''brief_excerpt'', brief_excerpt content_brief)],
               created_at = now ev proposal_num\<rparr>))"

definition error_proposal :: "env \<Rightarrow> int \<Rightarrow> exn \<Rightarrow> post_response" where
  "error_proposal ev proposal_num e =
     \<lparr>id_field = uuid4 ev proposal_num, content = error_content proposal_num, image_field = None,
      inspiration = Some [(''source'', ''Error in proposal '' @ str_int proposal_num),
                          (''error'', str_of e)],
      created_at = now ev proposal_num\<rparr>"

definition generate_post_proposal :: "env \<Rightarrow> string \<Rightarrow> brand_hero \<Rightarrow> int \<Rightarrow> exn + post_response" where
  "generate_post_proposal ev content_brief bh proposal_num =
     try_except (proposal_attempt ev content_brief bh proposal_num)
       (\<lambda>e. Inr (error_proposal ev proposal_num e))"

text \<open>
  \<open>asyncio.gather(*tasks)\<close>: the results in task order, or the exception of a task that
  raised (the first in task order is taken here).
\<close>

fun gather :: "(exn + 'a) list \<Rightarrow> exn + 'a list" where
  "gather [] = Inr []"
| "gather (t # ts) =
     (case t of
        Inl e \<Rightarrow> Inl e
      | Inr r \<Rightarrow> (case gather ts of Inl e \<Rightarrow> Inl e | Inr rs \<Rightarrow> Inr (r # rs)))"

definition batch_size :: int where
  "batch_size = 3"

text \<open>
  The batches of the loop \<^verbatim>\<open>for batch_start in range(0, num_proposals, batch_size)\<close>, from
  \<open>batch_start\<close> on: each is the list of proposal numbers \<open>i + 1\<close> for \<open>i\<close> in
  \<open>range(batch_start, batch_end)\<close>.
\<close>

function batches_from :: "int \<Rightarrow> int \<Rightarrow> int list list" where
  "batches_from batch_start num =
     (if batch_start < num
      then (let batch_end = min (batch_start + batch_size) num
            in map (\<lambda>i. i + 1) [batch_start..batch_end - 1])
           # batches_from (batch_start + batch_size) num
      else [])"
  by pat_completeness auto
termination
  by (relation "measure (\<lambda>(batch_start, num). nat (num - batch_start))")
    (auto simp: batch_size_def)

declare batches_from.simps [simp del]

text \<open>
  A run of an async generator: the items it yields, in order, and the exception that ends
  it, if any.
\<close>

type_synonym 'a run = "'a list \<times> exn option"

fun run_batches :: "env \<Rightarrow> string \<Rightarrow> brand_hero \<Rightarrow> int list list \<Rightarrow> post_response run" where
  "run_batches ev content_brief bh [] = ([], None)"
| "run_batches ev content_brief bh (b # bs) =
     (case gather (map (generate_post_proposal ev content_brief bh) b) of
        Inl e \<Rightarrow> ([], Some e)
      | Inr batch_results \<Rightarrow>
          (case run_batches ev content_brief bh bs of
             (rest, r) \<Rightarrow> (batch_results @ rest, r)))"

definition generate_post_proposals :: "env \<Rightarrow> json \<Rightarrow> brand_hero \<Rightarrow> int \<Rightarrow> post_response run" where
  "generate_post_proposals ev context_report bh num =
     (case create_content_brief ev context_report bh of
        Inl e \<Rightarrow> ([], Some e)
      | Inr content_brief \<Rightarrow> run_batches ev content_brief bh (batches_from 0 num))"

section \<open>DALLEService (app/services/dalle_service.py)\<close>

text \<open>
  The f-string templates are reproduced by their content; the indentation of the
  triple-quoted literals is not.
\<close>

definition join_hashtags :: "string list \<Rightarrow> string" where
  "join_hashtags hs = (case hs of [] \<Rightarrow> [] | h # t \<Rightarrow> foldl (\<lambda>acc x. acc @ '' '' @ x) h t)"

definition scene_fallback :: "brand_hero \<Rightarrow> post_content \<Rightarrow> string" where
  "scene_fallback bh pc = ''A professional image of '' @ name bh @ '' related to '' @ text_field pc"

definition generate_scene_description :: "env \<Rightarrow> brand_hero \<Rightarrow> post_content \<Rightarrow> exn + string option" where
  "generate_scene_description ev bh pc =
     try_except (generate_text ev bh pc) (\<lambda>e. Inr (Some (scene_fallback bh pc)))"

record image_result =
  res_image_url :: "string option"
  res_description :: string
  res_prompt_used :: string

definition scene_prompt_of :: "post_content \<Rightarrow> string option \<Rightarrow> string" where
  "scene_prompt_of pc scene_description =
     (case scene_description of
        Some s \<Rightarrow>
          (if s \<noteq> [] then s
           else ''The character is in a scene related to: '' @ text_field pc @ '' ''
                @ join_hashtags (hashtags pc))
      | None \<Rightarrow>
          ''The character is in a scene related to: '' @ text_field pc @ '' ''
          @ join_hashtags (hashtags pc))"

definition final_prompt_of :: "brand_hero \<Rightarrow> string \<Rightarrow> string" where
  "final_prompt_of bh scene_prompt =
     ''Create a photorealistic image of '' @ name bh @ '', who is '' @ appearance bh
     @ ''. Character personality: '' @ personality bh @ '' Scene context: '' @ '' '' @ scene_prompt
     @ [CHR 0x0A, CHR 0x0A]
     @ ''The image should be: - Professional and appropriate for business social media''
     @ '' - Visually appealing with good composition''
     @ '' - Well-lit with clear visibility of the character''
     @ '' - Consistent with the brand hero's description''
     @ '' - Relevant to the post content''"

definition generate_brand_hero_image ::
  "env \<Rightarrow> brand_hero \<Rightarrow> post_content \<Rightarrow> string option \<Rightarrow> exn + image_result" where
  "generate_brand_hero_image ev bh pc scene_description =
     try_except
       (let scene_prompt = scene_prompt_of pc scene_description;
            final_prompt = final_prompt_of bh scene_prompt
        in and_then (images_generate ev final_prompt) (\<lambda>url.
             Inr \<lparr>res_image_url = url, res_description = scene_prompt,
                  res_prompt_used = final_prompt\<rparr>))
       (\<lambda>e. Inl e)"

section \<open>ImageAgent.generate_image (app/agents/image.py)\<close>

definition placeholder_image :: post_image where
  "placeholder_image =
     \<lparr>image_url = ''https://via.placeholder.com/1024x1024?text=Image+Generation+Error'',
      description = ''Error generating image'', prompt_used = None\<rparr>"

text \<open>The body of the \<open>try\<close> in \<open>generate_image\<close>.\<close>

definition image_attempt :: "env \<Rightarrow> brand_hero \<Rightarrow> post_content \<Rightarrow> exn + post_image" where
  "image_attempt ev bh pc =
     and_then (generate_response ev (ImageDirectorCall bh pc)) (\<lambda>response.
     and_then (generate_scene_description ev bh pc) (\<lambda>scene_description.
     and_then (generate_brand_hero_image ev bh pc scene_description) (\<lambda>image_result.
     PostImage (res_image_url image_result) (res_description image_result)
       (Some (res_prompt_used image_result)))))"

definition generate_image :: "env \<Rightarrow> brand_hero \<Rightarrow> post_content \<Rightarrow> exn + post_image" where
  "generate_image ev bh pc = try_except (image_attempt ev bh pc) (\<lambda>e. Inr placeholder_image)"

section \<open>OrchestratorAgent.process_request (app/agents/orchestrator.py)\<close>

text \<open>
  The body of the \<open>async for\<close> over the proposals: synthesise the image, attach it,
  normalise, yield. An exception of the body or of the proposal generator ends the run.
\<close>

fun process_proposals :: "env \<Rightarrow> brand_hero \<Rightarrow> post_response list \<Rightarrow> exn option \<Rightarrow> post_response run" where
  "process_proposals ev bh [] r = ([], r)"
| "process_proposals ev bh (post_proposal # rest) r =
     (case generate_image ev bh (content post_proposal) of
        Inl e \<Rightarrow> ([], Some e)
      | Inr post_image \<Rightarrow>
          (case process_proposals ev bh rest r of
             (out, r') \<Rightarrow>
               (apply_post_guardrails (post_proposal\<lparr>image_field := Some post_image\<rparr>) # out, r')))"

definition process_request :: "env \<Rightarrow> settings \<Rightarrow> post_generation_request \<Rightarrow> post_response run" where
  "process_request ev st request =
     (let validated_request = apply_request_guardrails st request
      in case generate_context_report ev (company_context validated_request)
                (include_trends validated_request) (include_competitors validated_request) of
           Inl e \<Rightarrow> ([], Some e)
         | Inr context_report \<Rightarrow>
             (case generate_post_proposals ev context_report (brand_hero validated_request)
                     (num_proposals validated_request) of
                (proposals, r) \<Rightarrow> process_proposals ev (brand_hero validated_request) proposals r))"

section \<open>The stream of the route (app/api/routes.py)\<close>

record stream_response =
  status :: string
  message :: "string option"
  post :: "post_response option"
  error :: "string option"

definition started_event :: stream_response where
  "started_event = \<lparr>status = ''started'', message = Some ''Starting post generation process'',
     post = None, error = None\<rparr>"

definition in_progress_event :: "post_response \<Rightarrow> stream_response" where
  "in_progress_event p = \<lparr>status = ''in_progress'', message = None, post = Some p, error = None\<rparr>"

definition completed_event :: "int \<Rightarrow> stream_response" where
  "completed_event n = \<lparr>status = ''completed'',
     message = Some (''Generated '' @ str_int n @ '' post proposals''), post = None, error = None\<rparr>"

definition error_event :: "exn \<Rightarrow> stream_response" where
  "error_event e = \<lparr>status = ''error'', message = None, post = None, error = Some (str_of e)\<rparr>"

definition stream_response_dict :: "stream_response \<Rightarrow> py" where
  "stream_response_dict r =
     PyDict [(''status'', PyStr (status r)), (''message'', opt_str (message r)),
             (''post'', case post r of None \<Rightarrow> PyNone | Some p \<Rightarrow> post_response_dict p),
             (''error'', opt_str (error r))]"

text \<open>
  \<^verbatim>\<open>yield json.dumps(StreamResponse(...).dict()) + "\\n"\<close>: the line is yielded once
  \<open>json.dumps\<close> has encoded the dictionary; the event stands for its line.
\<close>

definition emit_line :: "stream_response \<Rightarrow> exn + stream_response" where
  "emit_line r = and_then (json_dumps (stream_response_dict r)) (\<lambda>line. Inr r)"

text \<open>The loop over \<open>process_request\<close> and the completion line.\<close>

fun stream_posts :: "int \<Rightarrow> post_response list \<Rightarrow> exn option \<Rightarrow> stream_response run" where
  "stream_posts n [] r =
     (case r of
        None \<Rightarrow>
          (case emit_line (completed_event n) of
             Inl e \<Rightarrow> ([], Some e)
           | Inr line \<Rightarrow> ([line], None))
      | Some e \<Rightarrow> ([], Some e))"
| "stream_posts n (p # ps) r =
     (case emit_line (in_progress_event p) of
        Inl e \<Rightarrow> ([], Some e)
      | Inr line \<Rightarrow> (case stream_posts n ps r of (evs, r') \<Rightarrow> (line # evs, r')))"

text \<open>
  The body of the \<open>try\<close> in \<open>generate_posts_stream\<close>. The request object is changed in
  place by the request guardrail, so the completion line reads the clamped count.
\<close>

definition stream_attempt :: "env \<Rightarrow> settings \<Rightarrow> post_generation_request \<Rightarrow> stream_response run" where
  "stream_attempt ev st request =
     (case orchestrator_init ev of
        Some e \<Rightarrow> ([], Some e)
      | None \<Rightarrow>
          (case emit_line started_event of
             Inl e \<Rightarrow> ([], Some e)
           | Inr line \<Rightarrow>
               (case process_request ev st request of
                  (posts, r) \<Rightarrow>
                    (case stream_posts (num_proposals (apply_request_guardrails st request)) posts r of
                       (evs, r') \<Rightarrow> (line # evs, r')))))"

definition generate_posts_stream :: "env \<Rightarrow> settings \<Rightarrow> post_generation_request \<Rightarrow> stream_response run" where
  "generate_posts_stream ev st request =
     (case stream_attempt ev st request of
        (evs, None) \<Rightarrow> (evs, None)
      | (evs, Some e) \<Rightarrow>
          (case emit_line (error_event e) of
             Inl e' \<Rightarrow> (evs, Some e')
           | Inr line \<Rightarrow> (evs @ [line], None)))"

section \<open>The server-sent events of app/utils/streaming.py\<close>

text \<open>
  \<open>format_sse_event\<close> catches what \<open>json.dumps\<close> raises and answers with a line that
  holds the error text only. \<open>stream_generator\<close> counts the items of the generator it is
  given and sleeps between the lines; the sleep does not change the sequence.
\<close>

datatype sse_event = Data stream_response | Error_data string

definition format_sse_event :: "stream_response \<Rightarrow> exn + sse_event" where
  "format_sse_event data =
     try_except
       (and_then (json_dumps (stream_response_dict data)) (\<lambda>json_data. Inr (Data data)))
       (\<lambda>e. Inr (Error_data (str_of e)))"

fun stream_items :: "nat \<Rightarrow> post_response list \<Rightarrow> exn option \<Rightarrow> sse_event run" where
  "stream_items count [] r =
     (case r of
        None \<Rightarrow>
          (case format_sse_event
                  \<lparr>status = ''completed'',
                   message = Some (''Generated '' @ str_int (int count) @ '' post proposals''),
                   post = None, error = None\<rparr> of
             Inl e \<Rightarrow> ([], Some e)
           | Inr line \<Rightarrow> ([line], None))
      | Some e \<Rightarrow> ([], Some e))"
| "stream_items count (p # ps) r =
     (case format_sse_event (in_progress_event p) of
        Inl e \<Rightarrow> ([], Some e)
      | Inr line \<Rightarrow> (case stream_items (count + 1) ps r of (lines, r') \<Rightarrow> (line # lines, r')))"

definition stream_generator :: "post_response run \<Rightarrow> sse_event run" where
  "stream_generator generator =
     (case (case format_sse_event started_event of
              Inl e \<Rightarrow> ([], Some e)
            | Inr line \<Rightarrow>
                (case stream_items 0 (fst generator) (snd generator) of
                   (lines, r) \<Rightarrow> (line # lines, r))) of
        (lines, None) \<Rightarrow> (lines, None)
      | (lines, Some e) \<Rightarrow>
          (case format_sse_event (error_event e) of
             Inl e' \<Rightarrow> (lines, Some e')
           | Inr line \<Rightarrow> (lines @ [line], None)))"

section \<open>The schedule of a run: what is awaited, in which order\<close>

text \<open>
  The order in which one run of the pipeline reaches its suspension points, for a run in
  which the two fatal stages succeed. \<open>Create n\<close> is the creation of the coroutine of
  proposal \<open>n\<close> (\<^verbatim>\<open>task = self._generate_post_proposal(...)\<close>, which does not start it);
  \<open>Gather b\<close> is \<^verbatim>\<open>await asyncio.gather(*batch_tasks)\<close>, which starts the tasks of \<open>b\<close>,
  lets them run concurrently and returns when all of them have settled; \<open>Yield n\<close> is the
  generator handing proposal \<open>n\<close> to its consumer; \<open>Await_image n\<close> is
  \<^verbatim>\<open>await self.image_agent.generate_image(...)\<close> for it; \<open>Emit n\<close> is \<open>process_request\<close>
  yielding the finished proposal.
\<close>

datatype action =
    Await_context_report
  | Await_content_brief
  | Create int
  | Gather "int list"
  | Yield int
  | Await_image int
  | Emit int

text \<open>One iteration of the batch loop of \<open>generate_post_proposals\<close>.\<close>

definition batch_actions :: "int list \<Rightarrow> action list" where
  "batch_actions b = map Create b @ [Gather b] @ map Yield b"

definition proposals_schedule :: "int \<Rightarrow> action list" where
  "proposals_schedule num =
     Await_content_brief # concat (map batch_actions (batches_from 0 num))"

text \<open>
  \<^verbatim>\<open>async for x in gen: body\<close>: the generator is resumed only after the body has run for
  the item it yielded.
\<close>

fun with_consumer :: "(int \<Rightarrow> action list) \<Rightarrow> action list \<Rightarrow> action list" where
  "with_consumer body [] = []"
| "with_consumer body (Yield n # as) = Yield n # body n @ with_consumer body as"
| "with_consumer body (a # as) = a # with_consumer body as"

definition request_schedule :: "settings \<Rightarrow> post_generation_request \<Rightarrow> action list" where
  "request_schedule st request =
     Await_context_report
     # with_consumer (\<lambda>n. [Await_image n, Emit n])
         (proposals_schedule (num_proposals (apply_request_guardrails st request)))"

text \<open>
  The batching discipline, checked along a schedule: \<open>pending\<close> holds the coroutines
  created and not yet awaited. A \<open>Gather\<close> awaits exactly the pending coroutines, at least
  one and at most \<open>batch_size\<close> of them; nothing is yielded while a coroutine is pending.
\<close>

fun batch_discipline :: "int list \<Rightarrow> action list \<Rightarrow> bool" where
  "batch_discipline pending [] = (pending = [])"
| "batch_discipline pending (Create n # as) = batch_discipline (pending @ [n]) as"
| "batch_discipline pending (Gather b # as) =
     (b = pending \<and> b \<noteq> [] \<and> int (length b) \<le> batch_size \<and> batch_discipline [] as)"
| "batch_discipline pending (Yield n # as) = (pending = [] \<and> batch_discipline pending as)"
| "batch_discipline pending (a # as) = batch_discipline pending as"

fun gathered :: "action list \<Rightarrow> int list list" where
  "gathered [] = []"
| "gathered (Gather b # as) = b # gathered as"
| "gathered (a # as) = gathered as"

text \<open>Every batch but the last has \<open>batch_size\<close> entries; the last has between one and \<open>batch_size\<close>.\<close>

fun full_but_last :: "int list list \<Rightarrow> bool" where
  "full_but_last [] = True"
| "full_but_last [b] = (b \<noteq> [] \<and> int (length b) \<le> batch_size)"
| "full_but_last (b # bs) = (int (length b) = batch_size \<and> full_but_last bs)"

text \<open>
  Logical time. Awaits of one coroutine add up; a \<open>Gather\<close> lasts as long as its slowest
  task; creating a coroutine and yielding take no time. \<open>emissions d t s\<close> lists the
  proposals emitted along \<open>s\<close>, each with the time of its emission, the clock starting
  at \<open>t\<close>.
\<close>

record durations =
  dur_context_report :: nat
  dur_content_brief :: nat
  dur_proposal :: "int \<Rightarrow> nat"
  dur_image :: "int \<Rightarrow> nat"

fun duration :: "durations \<Rightarrow> action \<Rightarrow> nat" where
  "duration d Await_context_report = dur_context_report d"
| "duration d Await_content_brief = dur_content_brief d"
| "duration d (Gather b) = fold max (map (dur_proposal d) b) 0"
| "duration d (Await_image n) = dur_image d n"
| "duration d _ = 0"

fun emissions :: "durations \<Rightarrow> nat \<Rightarrow> action list \<Rightarrow> (int \<times> nat) list" where
  "emissions d t [] = []"
| "emissions d t (Emit n # as) = (n, t) # emissions d t as"
| "emissions d t (a # as) = emissions d (t + duration d a) as"

definition slow_image :: "durations \<Rightarrow> int \<Rightarrow> nat \<Rightarrow> durations" where
  "slow_image d i x = d\<lparr>dur_image := (dur_image d)(i := dur_image d i + x)\<rparr>"

definition instant :: durations where
  "instant = \<lparr>dur_context_report = 0, dur_content_brief = 0, dur_proposal = (\<lambda>n. 0),
     dur_image = (\<lambda>n. 0)\<rparr>"

text \<open>The time at which proposal \<open>n\<close> is emitted, if it is.\<close>

definition emit_time :: "durations \<Rightarrow> action list \<Rightarrow> int \<Rightarrow> nat option" where
  "emit_time d s n = map_of (emissions d 0 s) n"

text \<open>An emission moved back by \<open>x\<close> if it is that of proposal \<open>i\<close> or of a later one.\<close>

definition delayed_from :: "int \<Rightarrow> nat \<Rightarrow> int \<times> nat \<Rightarrow> int \<times> nat" where
  "delayed_from i x e = (fst e, if i \<le> fst e then snd e + x else snd e)"

text \<open>
  What \<open>process_request\<close> does for one proposal, and for one batch: the shapes that the
  schedule of a request unfolds to.
\<close>

definition segment :: "int \<Rightarrow> action list" where
  "segment n = [Yield n, Await_image n, Emit n]"

definition batch_run :: "int list \<Rightarrow> action list" where
  "batch_run b = map Create b @ [Gather b] @ concat (map segment b)"

text \<open>
  The sequence of statuses the specification allows: \<open>started\<close> first, then any number
  of \<open>in_progress\<close>, then exactly one of \<open>completed\<close> and \<open>error\<close>, last.
\<close>

fun protocol_ok :: "string list \<Rightarrow> bool" where
  "protocol_ok [] = False"
| "protocol_ok (s # rest) =
     (s = ''started'' \<and> rest \<noteq> []
      \<and> list_all (\<lambda>x. x = ''in_progress'') (butlast rest)
      \<and> (last rest = ''completed'' \<or> last rest = ''error''))"

section \<open>Example inputs\<close>

definition hero0 :: brand_hero where
  "hero0 = \<lparr>name = ''Eko Ekspert'', appearance = ''a green robot'', personality = ''curious'',
     backstory = ''built in a lab'', values_field = [''ecology''], tone_of_voice = ''friendly''\<rparr>"

definition company0 :: company_context where
  "company0 = \<lparr>cc_name = ''EcoTech Solutions'', cc_description = ''green technology'',
     cc_values = [''ecology''], target_audience = [''families''], cc_tone_of_voice = ''friendly'',
     industry = ''energy'', additional_info = None\<rparr>"

definition request0 :: "int \<Rightarrow> post_generation_request" where
  "request0 n = \<lparr>company_context = company0, brand_hero = hero0, num_proposals = n,
     include_trends = True, include_competitors = True\<rparr>"

text \<open>Collaborators that all answer, with well-formed JSON.\<close>

definition env_ok :: env where
  "env_ok = \<lparr>
     generate_response = (\<lambda>c. case c of
         ContextReportCall _ _ _ \<Rightarrow> Inr ''{}''
       | ContentBriefCall _ _ \<Rightarrow> Inr ''brief''
       | PostProposalCall _ _ n \<Rightarrow> Inr ''post''
       | ImageDirectorCall _ _ \<Rightarrow> Inr ''done''),
     generate_text = (\<lambda>bh pc. Inr (Some ''a sunny park'')),
     images_generate = (\<lambda>prompt. Inr (Some ''https://img.example/1.png'')),
     json_loads = (\<lambda>s. if s = ''{}'' then Inr (JObj [])
        else if s = ''post'' then Inr (JObj [(''text'', JStr ''Hello''), (''hashtags'', JArr [JStr ''#eco''])])
        else if s = ''[]'' then Inr (JArr [])
        else if s = ''[[[['' then Inl (RecursionError ''maximum recursion depth exceeded'')
        else Inl (JSONDecodeError ''Expecting value'')),
     uuid4 = (\<lambda>n. ''id-'' @ str_int n),
     now = (\<lambda>n. nat n),
     orchestrator_init = None\<rparr>"

text \<open>
  Proposal 1 answers with text that is not JSON, the call for proposal 2 raises, proposal
  3 answers with a JSON array; the context report is not JSON either.
\<close>

definition env_flaky :: env where
  "env_flaky = env_ok\<lparr>
     generate_response := (\<lambda>c. case c of
         ContextReportCall _ _ _ \<Rightarrow> Inr ''not json''
       | ContentBriefCall _ _ \<Rightarrow> Inr ''brief''
       | PostProposalCall _ _ n \<Rightarrow>
           (if n = 1 then Inr ''not json'' else if n = 2 then Inl (ServiceError ''boom'')
            else if n = 3 then Inr ''[]'' else Inr ''post'')
       | ImageDirectorCall _ _ \<Rightarrow> Inr ''done'')\<rparr>"

text \<open>Every generation call raises.\<close>

definition env_down :: env where
  "env_down = env_ok\<lparr>
     generate_response := (\<lambda>c. Inl (ServiceError ''unavailable'')),
     generate_text := (\<lambda>bh pc. Inl (ServiceError ''unavailable'')),
     images_generate := (\<lambda>prompt. Inl (ServiceError ''unavailable''))\<rparr>"

text \<open>Only the image calls raise.\<close>

definition env_no_image :: env where
  "env_no_image = env_ok\<lparr>
     generate_text := (\<lambda>bh pc. Inl (ServiceError ''unavailable'')),
     images_generate := (\<lambda>prompt. Inl (ServiceError ''unavailable''))\<rparr>"

text \<open>Only the scene-description call raises.\<close>

definition env_no_scene :: env where
  "env_no_scene = env_ok\<lparr>generate_text := (\<lambda>bh pc. Inl (ServiceError ''unavailable''))\<rparr>"

text \<open>The context report call answers with brackets nested too deep for the parser.\<close>

definition env_deep_reply :: env where
  "env_deep_reply = env_ok\<lparr>
     generate_response := (\<lambda>c. case c of
         ContextReportCall _ _ _ \<Rightarrow> Inr ''[[[[''
       | ContentBriefCall _ _ \<Rightarrow> Inr ''brief''
       | PostProposalCall _ _ n \<Rightarrow> Inr ''post''
       | ImageDirectorCall _ _ \<Rightarrow> Inr ''done'')\<rparr>"

text \<open>A company context whose free-form extras hold an object that is not JSON.\<close>

definition company_with_extras :: company_context where
  "company_with_extras = company0\<lparr>additional_info := Some [(''founded'', PyDatetime 0)]\<rparr>"

text \<open>The orchestrator cannot be constructed.\<close>

definition env_no_orchestrator :: env where
  "env_no_orchestrator = env_ok\<lparr>orchestrator_init := Some (ServiceError ''client construction failed'')\<rparr>"

text \<open>Settings that let a request for two proposals through unchanged.\<close>

definition small_settings :: settings where
  "small_settings = \<lparr>min_proposals = 1, max_proposals = 20\<rparr>"

section \<open>The guardrail normaliser\<close>

lemma apply_post_guardrails_content:
  "content (apply_post_guardrails p) =
     rule_limit_hashtags (rule_default_hashtag (rule_truncate_text (content p)))"
  by (simp add: apply_post_guardrails_def rule_truncate_text_def rule_default_hashtag_def
      rule_limit_hashtags_def Let_def)

lemma apply_post_guardrails_frame:
  "apply_post_guardrails p = p\<lparr>content := content (apply_post_guardrails p)\<rparr>"
  by (simp add: apply_post_guardrails_def Let_def)

lemma normalised_compliant:
  "compliant (rule_limit_hashtags (rule_default_hashtag (rule_truncate_text c)))"
  by (cases "hashtags c")
    (simp_all add: compliant_def rule_truncate_text_def rule_default_hashtag_def
      rule_limit_hashtags_def)

lemma compliant_fixed:
  "compliant c \<Longrightarrow> rule_limit_hashtags (rule_default_hashtag (rule_truncate_text c)) = c"
  by (auto simp: compliant_def rule_truncate_text_def rule_default_hashtag_def
      rule_limit_hashtags_def)

text \<open>
  C2. For every proposal, the result of \<open>_apply_post_guardrails\<close> has a text of at most
  280 characters and between one and five hashtags, and it is obtained by the three rules
  in order: truncate a text longer than 280 to its first 277 characters followed by
  \<open>...\<close>; replace an empty hashtag list by \<open>[#post]\<close>; keep the first five hashtags of a
  longer list. Every other field is left as it was.
\<close>

theorem guardrails_bounds_and_rules:
  "length (text_field (content (apply_post_guardrails p))) \<le> 280
   \<and> 1 \<le> length (hashtags (content (apply_post_guardrails p)))
   \<and> length (hashtags (content (apply_post_guardrails p))) \<le> 5
   \<and> apply_post_guardrails p =
       p\<lparr>content := rule_limit_hashtags (rule_default_hashtag (rule_truncate_text (content p)))\<rparr>"
proof -
  have c: "compliant (content (apply_post_guardrails p))"
    by (simp only: apply_post_guardrails_content normalised_compliant)
  have f: "apply_post_guardrails p =
       p\<lparr>content := rule_limit_hashtags (rule_default_hashtag (rule_truncate_text (content p)))\<rparr>"
    using apply_post_guardrails_frame [of p] by (simp only: apply_post_guardrails_content)
  from c f show ?thesis by (simp add: compliant_def)
qed

text \<open>
  C8. \<open>_apply_post_guardrails\<close> is idempotent: a proposal whose text has at most 280
  characters and whose hashtag list has between one and five entries is returned
  unchanged, and for every proposal a second application changes nothing.
\<close>

theorem guardrails_idempotent:
  "(length (text_field (content p)) \<le> 280 \<and> 1 \<le> length (hashtags (content p))
      \<and> length (hashtags (content p)) \<le> 5 \<longrightarrow> apply_post_guardrails p = p)
   \<and> apply_post_guardrails (apply_post_guardrails p) = apply_post_guardrails p"
proof -
  have fixp: "apply_post_guardrails q = q" if "compliant (content q)" for q
    using apply_post_guardrails_frame [of q] compliant_fixed [OF that]
    by (simp add: apply_post_guardrails_content)
  have "compliant (content (apply_post_guardrails p))"
    by (simp only: apply_post_guardrails_content normalised_compliant)
  then have "apply_post_guardrails (apply_post_guardrails p) = apply_post_guardrails p"
    by (rule fixp)
  with fixp [of p] show ?thesis by (simp add: compliant_def)
qed

theorem guardrails_idempotent_witness:
  "length (text_field (content short_post)) \<le> 280
   \<and> 1 \<le> length (hashtags (content short_post))
   \<and> length (hashtags (content short_post)) \<le> 5
   \<and> apply_post_guardrails short_post = short_post
   \<and> apply_post_guardrails (apply_post_guardrails long_post) = apply_post_guardrails long_post
   \<and> apply_post_guardrails long_post \<noteq> long_post"
proof -
  have a: "length (text_field (content short_post)) \<le> 280
     \<and> 1 \<le> length (hashtags (content short_post))
     \<and> length (hashtags (content short_post)) \<le> 5"
    by (simp add: short_post_def)
  have b: "apply_post_guardrails short_post = short_post"
    using guardrails_idempotent [of short_post] a by blast
  have c: "apply_post_guardrails (apply_post_guardrails long_post) = apply_post_guardrails long_post"
    using guardrails_idempotent [of long_post] by blast
  have d: "length (hashtags (content (apply_post_guardrails long_post))) \<le> 5"
    by (simp add: apply_post_guardrails_content rule_limit_hashtags_def rule_default_hashtag_def
        rule_truncate_text_def long_post_def)
  have e: "length (hashtags (content long_post)) = 6"
    by (simp add: long_post_def)
  from d e have "apply_post_guardrails long_post \<noteq> long_post" by auto
  with a b c show ?thesis by blast
qed

section \<open>The request guardrail\<close>

lemma request_guardrails_clamp:
  "min_proposals st \<le> max_proposals st \<Longrightarrow>
     min_proposals st \<le> num_proposals (apply_request_guardrails st request)
     \<and> num_proposals (apply_request_guardrails st request) \<le> max_proposals st"
  by (simp add: apply_request_guardrails_def Let_def)

lemma request_guardrails_frame:
  "brand_hero (apply_request_guardrails st request) = brand_hero request
   \<and> company_context (apply_request_guardrails st request) = company_context request"
  by (simp add: apply_request_guardrails_def Let_def)

text \<open>
  C3. The orchestrator's guardrail clamps every count into the configured bounds (the
  lemma above), but a request with count 100 never reaches it: the validator of
  \<open>PostGenerationRequest\<close> raises for every count outside 1..20, so the request is
  rejected when it is built.
\<close>

theorem count_100_rejected:
  "PostGenerationRequest cc bh 100 tr co
     = Inl (ValidationError ''num_proposals must be between 1 and 20'')"
  by (simp add: PostGenerationRequest_def validate_num_proposals_def)

section \<open>The context report\<close>

lemma company0_encodes: "json_dumps (company_context_dict company0) = Inr (company_context_dict company0)"
  by (simp add: json_dumps_def company_context_dict_def company0_def)

lemma generate_context_report_eq:
  "generate_context_report ev cc tr co =
     (case json_dumps (company_context_dict cc) of
        Inl e \<Rightarrow> Inl e
      | Inr context_json \<Rightarrow>
          (case generate_response ev (ContextReportCall cc tr co) of
             Inl e \<Rightarrow> Inl e
           | Inr response \<Rightarrow>
               (case json_loads ev response of
                  Inr report \<Rightarrow> Inr report
                | Inl e \<Rightarrow>
                    (if is_JSONDecodeError e
                     then Inr (JObj [(''raw_response'', JStr response),
                                     (''error'', JStr ''Failed to parse JSON response'')])
                     else Inl e))))"
  by (simp add: generate_context_report_def try_except_def try_except_only_def and_then_def
      split: sum.splits)

text \<open>
  C7, as amended. \<open>generate_context_report\<close> raises exactly when the company context
  cannot be encoded for the prompt, when the underlying generation call raises, or when
  \<open>json.loads\<close> raises an exception that is not a \<open>JSONDecodeError\<close>; each of these
  exceptions is passed on as it is. When the call answers with text on which \<open>json.loads\<close>
  raises \<open>JSONDecodeError\<close>, the report is returned all the same: an object holding the raw
  response under \<open>raw_response\<close> and the marker \<open>Failed to parse JSON response\<close> under
  \<open>error\<close>.
\<close>

theorem context_report_raises_iff:
  "((\<exists>e. generate_context_report ev cc tr co = Inl e)
      \<longleftrightarrow> ((\<exists>e. json_dumps (company_context_dict cc) = Inl e)
           \<or> (\<exists>e. generate_response ev (ContextReportCall cc tr co) = Inl e)
           \<or> (\<exists>response e. generate_response ev (ContextReportCall cc tr co) = Inr response
                  \<and> json_loads ev response = Inl e \<and> \<not> is_JSONDecodeError e)))
   \<and> (\<forall>e. json_dumps (company_context_dict cc) = Inl e
          \<longrightarrow> generate_context_report ev cc tr co = Inl e)
   \<and> (\<forall>j e. json_dumps (company_context_dict cc) = Inr j
          \<and> generate_response ev (ContextReportCall cc tr co) = Inl e
          \<longrightarrow> generate_context_report ev cc tr co = Inl e)
   \<and> (\<forall>j response e. json_dumps (company_context_dict cc) = Inr j
          \<and> generate_response ev (ContextReportCall cc tr co) = Inr response
          \<and> json_loads ev response = Inl e \<and> \<not> is_JSONDecodeError e
          \<longrightarrow> generate_context_report ev cc tr co = Inl e)
   \<and> (\<forall>j response m. json_dumps (company_context_dict cc) = Inr j
          \<and> generate_response ev (ContextReportCall cc tr co) = Inr response
          \<and> json_loads ev response = Inl (JSONDecodeError m)
          \<longrightarrow> generate_context_report ev cc tr co =
                Inr (JObj [(''raw_response'', JStr response),
                           (''error'', JStr ''Failed to parse JSON response'')]))"
proof -
  have 1: "(\<exists>e. generate_context_report ev cc tr co = Inl e)
      \<longleftrightarrow> ((\<exists>e. json_dumps (company_context_dict cc) = Inl e)
           \<or> (\<exists>e. generate_response ev (ContextReportCall cc tr co) = Inl e)
           \<or> (\<exists>response e. generate_response ev (ContextReportCall cc tr co) = Inr response
                  \<and> json_loads ev response = Inl e \<and> \<not> is_JSONDecodeError e))"
    by (auto simp: generate_context_report_eq split: sum.splits if_splits)
  have 2: "generate_context_report ev cc tr co = Inl e"
    if "json_dumps (company_context_dict cc) = Inl e" for e
    using that by (simp add: generate_context_report_eq)
  have 3: "generate_context_report ev cc tr co = Inl e"
    if "json_dumps (company_context_dict cc) = Inr j"
      and "generate_response ev (ContextReportCall cc tr co) = Inl e" for j e
    using that by (simp add: generate_context_report_eq)
  have 4: "generate_context_report ev cc tr co = Inl e"
    if "json_dumps (company_context_dict cc) = Inr j"
      and "generate_response ev (ContextReportCall cc tr co) = Inr response"
      and "json_loads ev response = Inl e" and "\<not> is_JSONDecodeError e" for j response e
    using that by (simp add: generate_context_report_eq)
  have 5: "generate_context_report ev cc tr co =
        Inr (JObj [(''raw_response'', JStr response),
                   (''error'', JStr ''Failed to parse JSON response'')])"
    if "json_dumps (company_context_dict cc) = Inr j"
      and "generate_response ev (ContextReportCall cc tr co) = Inr response"
      and "json_loads ev response = Inl (JSONDecodeError m)" for j response m
    using that by (simp add: generate_context_report_eq)
  from 1 2 3 4 5 show ?thesis by blast
qed

theorem context_report_raises_iff_witness:
  "json_dumps (company_context_dict company0) = Inr (company_context_dict company0)
   \<and> generate_response env_down (ContextReportCall company0 True True) = Inl (ServiceError ''unavailable'')
   \<and> generate_context_report env_down company0 True True = Inl (ServiceError ''unavailable'')
   \<and> generate_response env_flaky (ContextReportCall company0 True True) = Inr ''not json''
   \<and> json_loads env_flaky ''not json'' = Inl (JSONDecodeError ''Expecting value'')
   \<and> generate_context_report env_flaky company0 True True =
        Inr (JObj [(''raw_response'', JStr ''not json''),
                   (''error'', JStr ''Failed to parse JSON response'')])
   \<and> json_dumps (company_context_dict company_with_extras)
        = Inl (TypeError ''Object of type datetime is not JSON serializable'')
   \<and> generate_context_report env_ok company_with_extras True True
        = Inl (TypeError ''Object of type datetime is not JSON serializable'')"
proof -
  have a: "generate_response env_down (ContextReportCall company0 True True) = Inl (ServiceError ''unavailable'')"
    by (simp add: env_down_def env_ok_def)
  have b: "generate_response env_flaky (ContextReportCall company0 True True) = Inr ''not json''"
    "json_loads env_flaky ''not json'' = Inl (JSONDecodeError ''Expecting value'')"
    by (simp_all add: env_flaky_def env_ok_def)
  have c: "json_dumps (company_context_dict company_with_extras)
        = Inl (TypeError ''Object of type datetime is not JSON serializable'')"
    by (simp add: json_dumps_def company_context_dict_def company_with_extras_def company0_def)
  have d: "generate_context_report env_down company0 True True = Inl (ServiceError ''unavailable'')"
    using context_report_raises_iff [of env_down company0 True True] company0_encodes a by blast
  have e: "generate_context_report env_flaky company0 True True =
        Inr (JObj [(''raw_response'', JStr ''not json''),
                   (''error'', JStr ''Failed to parse JSON response'')])"
    using context_report_raises_iff [of env_flaky company0 True True] company0_encodes b by blast
  have f: "generate_context_report env_ok company_with_extras True True
        = Inl (TypeError ''Object of type datetime is not JSON serializable'')"
    using context_report_raises_iff [of env_ok company_with_extras True True] c by blast
  from company0_encodes a b c d e f show ?thesis by simp
qed

text \<open>
  The claim as stated fails: the generation call answers, \<open>json.loads\<close> raises
  \<open>RecursionError\<close> on the answer, the handler for \<open>JSONDecodeError\<close> lets it pass, and the
  report raises although the underlying call did not fail.
\<close>

theorem context_report_raises_after_call_counterexample:
  "generate_response env_deep_reply (ContextReportCall company0 True True) = Inr ''[[[[''
   \<and> generate_context_report env_deep_reply company0 True True
       = Inl (RecursionError ''maximum recursion depth exceeded'')"
  by (simp add: generate_context_report_eq company0_encodes env_deep_reply_def env_ok_def)

section \<open>Image synthesis\<close>

lemma generate_image_eq:
  "generate_image ev bh pc =
     Inr (case image_attempt ev bh pc of Inl e \<Rightarrow> placeholder_image | Inr img \<Rightarrow> img)"
  by (simp add: generate_image_def try_except_def split: sum.splits)

lemma image_attempt_response_fails:
  "generate_response ev (ImageDirectorCall bh pc) = Inl e \<Longrightarrow> image_attempt ev bh pc = Inl e"
  by (simp add: image_attempt_def and_then_def)

lemma generate_scene_description_total:
  "\<exists>sd. generate_scene_description ev bh pc = Inr sd"
  by (simp add: generate_scene_description_def try_except_def split: sum.splits)

lemma scene_description_absorbs_failure:
  "generate_text ev bh pc = Inl e \<Longrightarrow>
   generate_scene_description ev bh pc = Inr (Some (scene_fallback bh pc))"
  by (simp add: generate_scene_description_def try_except_def)

lemma generate_image_with_fallback_scene:
  assumes "generate_text ev bh pc = Inl e"
    and "generate_response ev (ImageDirectorCall bh pc) = Inr response"
    and "images_generate ev (final_prompt_of bh (scene_fallback bh pc)) = Inr (Some url)"
  shows "generate_image ev bh pc =
      Inr \<lparr>image_url = url, description = scene_fallback bh pc,
           prompt_used = Some (final_prompt_of bh (scene_fallback bh pc))\<rparr>"
proof -
  have ne: "scene_fallback bh pc \<noteq> []"
    by (simp add: scene_fallback_def)
  then have sp: "scene_prompt_of pc (Some (scene_fallback bh pc)) = scene_fallback bh pc"
    by (simp add: scene_prompt_of_def)
  show ?thesis
    using assms scene_description_absorbs_failure [OF assms(1)]
    by (simp add: generate_image_def image_attempt_def try_except_def and_then_def
        generate_brand_hero_image_def Let_def sp PostImage_def)
qed

lemma image_attempt_synthesis_fails:
  assumes "generate_scene_description ev bh pc = Inr sd"
    and "generate_brand_hero_image ev bh pc sd = Inl e"
  shows "\<exists>e'. image_attempt ev bh pc = Inl e'"
  using assms by (simp add: image_attempt_def and_then_def split: sum.splits)

text \<open>
  C5, as amended. For every brand hero and post content, \<open>generate_image\<close> returns and
  never raises. Whenever the agent call, the image synthesis call or the construction of
  the \<open>PostImage\<close> (which fails on a missing URL) raises, the result is the placeholder
  with the fixed locator and the description \<open>Error generating image\<close>. A failure of
  the scene-description call does not lead to the placeholder:
  \<open>DALLEService.generate_scene_description\<close> catches it and answers with the fallback
  description \<open>A professional image of <name> related to <text>\<close>, and if the other
  calls succeed the image synthesized from that description is returned.
\<close>

theorem generate_image_never_raises:
  "(\<exists>img. generate_image ev bh pc = Inr img)
   \<and> (\<forall>e. image_attempt ev bh pc = Inl e \<longrightarrow> generate_image ev bh pc = Inr placeholder_image)
   \<and> (\<forall>e. generate_response ev (ImageDirectorCall bh pc) = Inl e
          \<longrightarrow> generate_image ev bh pc = Inr placeholder_image)
   \<and> (\<forall>sd e. generate_scene_description ev bh pc = Inr sd
          \<and> generate_brand_hero_image ev bh pc sd = Inl e
          \<longrightarrow> generate_image ev bh pc = Inr placeholder_image)
   \<and> (\<forall>sd r. generate_scene_description ev bh pc = Inr sd
          \<and> generate_brand_hero_image ev bh pc sd = Inr r \<and> res_image_url r = None
          \<longrightarrow> generate_image ev bh pc = Inr placeholder_image)
   \<and> (\<forall>e. generate_text ev bh pc = Inl e
          \<longrightarrow> generate_scene_description ev bh pc = Inr (Some (scene_fallback bh pc)))
   \<and> (\<forall>e response url. generate_text ev bh pc = Inl e
          \<and> generate_response ev (ImageDirectorCall bh pc) = Inr response
          \<and> images_generate ev (final_prompt_of bh (scene_fallback bh pc)) = Inr (Some url)
          \<longrightarrow> generate_image ev bh pc =
                Inr \<lparr>image_url = url, description = scene_fallback bh pc,
                     prompt_used = Some (final_prompt_of bh (scene_fallback bh pc))\<rparr>)
   \<and> image_url placeholder_image = ''https://via.placeholder.com/1024x1024?text=Image+Generation+Error''
   \<and> description placeholder_image = ''Error generating image''"
proof -
  have 1: "\<exists>img. generate_image ev bh pc = Inr img"
    by (simp add: generate_image_eq)
  have 2: "generate_image ev bh pc = Inr placeholder_image" if "image_attempt ev bh pc = Inl e" for e
    using that by (simp add: generate_image_eq)
  have 3: "generate_image ev bh pc = Inr placeholder_image"
    if "generate_response ev (ImageDirectorCall bh pc) = Inl e" for e
    using image_attempt_response_fails [OF that] by (rule 2)
  have 4: "generate_image ev bh pc = Inr placeholder_image"
    if "generate_scene_description ev bh pc = Inr sd" "generate_brand_hero_image ev bh pc sd = Inl e"
    for sd e
    using image_attempt_synthesis_fails [OF that] 2 by blast
  have 5: "generate_image ev bh pc = Inr placeholder_image"
    if "generate_scene_description ev bh pc = Inr sd" "generate_brand_hero_image ev bh pc sd = Inr r"
      "res_image_url r = None"
    for sd r
    using that
    by (simp add: generate_image_eq image_attempt_def and_then_def PostImage_def split: sum.splits)
  have 6: "image_url placeholder_image = ''https://via.placeholder.com/1024x1024?text=Image+Generation+Error''
     \<and> description placeholder_image = ''Error generating image''"
    by (simp add: placeholder_image_def)
  have 7: "generate_scene_description ev bh pc = Inr (Some (scene_fallback bh pc))"
    if "generate_text ev bh pc = Inl e" for e
    using that by (rule scene_description_absorbs_failure)
  have 8: "generate_image ev bh pc =
        Inr \<lparr>image_url = url, description = scene_fallback bh pc,
             prompt_used = Some (final_prompt_of bh (scene_fallback bh pc))\<rparr>"
    if "generate_text ev bh pc = Inl e" and "generate_response ev (ImageDirectorCall bh pc) = Inr response"
      and "images_generate ev (final_prompt_of bh (scene_fallback bh pc)) = Inr (Some url)"
    for e response url
    using that by (rule generate_image_with_fallback_scene)
  have A: "(\<exists>img. generate_image ev bh pc = Inr img)
     \<and> (\<forall>e. image_attempt ev bh pc = Inl e \<longrightarrow> generate_image ev bh pc = Inr placeholder_image)
     \<and> (\<forall>e. generate_response ev (ImageDirectorCall bh pc) = Inl e
          \<longrightarrow> generate_image ev bh pc = Inr placeholder_image)"
    using 1 2 3 by blast
  have B: "(\<forall>sd e. generate_scene_description ev bh pc = Inr sd
          \<and> generate_brand_hero_image ev bh pc sd = Inl e
          \<longrightarrow> generate_image ev bh pc = Inr placeholder_image)
     \<and> (\<forall>sd r. generate_scene_description ev bh pc = Inr sd
          \<and> generate_brand_hero_image ev bh pc sd = Inr r \<and> res_image_url r = None
          \<longrightarrow> generate_image ev bh pc = Inr placeholder_image)"
    using 4 5 by blast
  have C: "(\<forall>e. generate_text ev bh pc = Inl e
          \<longrightarrow> generate_scene_description ev bh pc = Inr (Some (scene_fallback bh pc)))
     \<and> (\<forall>e response url. generate_text ev bh pc = Inl e
          \<and> generate_response ev (ImageDirectorCall bh pc) = Inr response
          \<and> images_generate ev (final_prompt_of bh (scene_fallback bh pc)) = Inr (Some url)
          \<longrightarrow> generate_image ev bh pc =
                Inr \<lparr>image_url = url, description = scene_fallback bh pc,
                     prompt_used = Some (final_prompt_of bh (scene_fallback bh pc))\<rparr>)"
    using 7 8 by blast
  from A B C 6 show ?thesis by (intro conjI) (erule conjE | assumption)+
qed

theorem generate_image_never_raises_witness:
  "generate_response env_down (ImageDirectorCall hero0 (fallback_content 1)) = Inl (ServiceError ''unavailable'')
   \<and> generate_image env_down hero0 (fallback_content 1) = Inr placeholder_image
   \<and> (\<exists>sd. generate_scene_description env_no_image hero0 (fallback_content 1) = Inr sd
        \<and> generate_brand_hero_image env_no_image hero0 (fallback_content 1) sd = Inl (ServiceError ''unavailable''))
   \<and> generate_image env_no_image hero0 (fallback_content 1) = Inr placeholder_image
   \<and> generate_text env_no_scene hero0 (fallback_content 1) = Inl (ServiceError ''unavailable'')
   \<and> generate_response env_no_scene (ImageDirectorCall hero0 (fallback_content 1)) = Inr ''done''
   \<and> images_generate env_no_scene (final_prompt_of hero0 (scene_fallback hero0 (fallback_content 1)))
        = Inr (Some ''https://img.example/1.png'')
   \<and> generate_image env_no_scene hero0 (fallback_content 1) =
        Inr \<lparr>image_url = ''https://img.example/1.png'',
             description = scene_fallback hero0 (fallback_content 1),
             prompt_used = Some (final_prompt_of hero0 (scene_fallback hero0 (fallback_content 1)))\<rparr>"
proof -
  have a: "generate_response env_down (ImageDirectorCall hero0 (fallback_content 1)) = Inl (ServiceError ''unavailable'')"
    by (simp add: env_down_def env_ok_def)
  obtain sd where sd: "generate_scene_description env_no_image hero0 (fallback_content 1) = Inr sd"
    using generate_scene_description_total by blast
  have b: "generate_brand_hero_image env_no_image hero0 (fallback_content 1) sd = Inl (ServiceError ''unavailable'')"
    by (simp add: generate_brand_hero_image_def try_except_def and_then_def Let_def
        env_no_image_def env_ok_def)
  have c: "generate_text env_no_scene hero0 (fallback_content 1) = Inl (ServiceError ''unavailable'')"
    "generate_response env_no_scene (ImageDirectorCall hero0 (fallback_content 1)) = Inr ''done''"
    "images_generate env_no_scene (final_prompt_of hero0 (scene_fallback hero0 (fallback_content 1)))
        = Inr (Some ''https://img.example/1.png'')"
    by (simp_all add: env_no_scene_def env_ok_def)
  have d: "generate_image env_down hero0 (fallback_content 1) = Inr placeholder_image"
    using generate_image_never_raises [of env_down hero0 "fallback_content 1"] a by blast
  have e: "generate_image env_no_image hero0 (fallback_content 1) = Inr placeholder_image"
    using generate_image_never_raises [of env_no_image hero0 "fallback_content 1"] sd b by blast
  have f: "generate_image env_no_scene hero0 (fallback_content 1) =
        Inr \<lparr>image_url = ''https://img.example/1.png'',
             description = scene_fallback hero0 (fallback_content 1),
             prompt_used = Some (final_prompt_of hero0 (scene_fallback hero0 (fallback_content 1)))\<rparr>"
    using generate_image_never_raises [of env_no_scene hero0 "fallback_content 1"] c by blast
  from a sd b c d e f show ?thesis by blast
qed

text \<open>
  The claim as stated fails when only the scene-description call raises: the result is
  the synthesized image with the fallback description, not the placeholder.
\<close>

theorem scene_failure_no_placeholder_counterexample:
  "generate_text env_no_scene hero0 (fallback_content 1) = Inl (ServiceError ''unavailable'')
   \<and> generate_image env_no_scene hero0 (fallback_content 1) \<noteq> Inr placeholder_image
   \<and> image_url (projr (generate_image env_no_scene hero0 (fallback_content 1)))
       = ''https://img.example/1.png''"
proof -
  have t: "generate_text env_no_scene hero0 (fallback_content 1) = Inl (ServiceError ''unavailable'')"
    by (simp add: env_no_scene_def env_ok_def)
  have g: "generate_image env_no_scene hero0 (fallback_content 1) =
        Inr \<lparr>image_url = ''https://img.example/1.png'',
             description = scene_fallback hero0 (fallback_content 1),
             prompt_used = Some (final_prompt_of hero0 (scene_fallback hero0 (fallback_content 1)))\<rparr>"
    by (rule generate_image_with_fallback_scene [OF t]) (simp_all add: env_no_scene_def env_ok_def)
  from t g show ?thesis by (simp add: placeholder_image_def)
qed

section \<open>Batched proposal generation\<close>

lemma map_succ_upto: "map (\<lambda>i. i + 1) [a..b] = [a + 1..b + 1]"
proof (induction a b rule: upto.induct)
  case (1 i j)
  show ?case
  proof (cases "i \<le> j")
    case True
    then show ?thesis using 1 by (simp add: upto_rec1)
  next
    case False
    then show ?thesis by simp
  qed
qed

lemma concat_batches_from: "concat (batches_from s n) = [s + 1..n]"
proof (induction s n rule: batches_from.induct)
  case (1 batch_start num)
  show ?case
  proof (cases "batch_start < num")
    case True
    let ?e = "min (batch_start + batch_size) num"
    have a: "map (\<lambda>i. i + 1) [batch_start..?e - 1] = [batch_start + 1..?e]"
      by (simp add: map_succ_upto)
    have b: "concat (batches_from (batch_start + batch_size) num) = [batch_start + batch_size + 1..num]"
      using 1 True by simp
    have c: "[batch_start + 1..num] = [batch_start + 1..?e] @ [?e + 1..num]"
      using True by (intro upto_split2) (auto simp: batch_size_def)
    have d: "[?e + 1..num] = [batch_start + batch_size + 1..num]"
      by (cases "batch_start + batch_size \<le> num") (auto simp: min_def)
    show ?thesis
      using True a b c d by (subst batches_from.simps) (simp add: Let_def)
  next
    case False
    then show ?thesis by (subst batches_from.simps) simp
  qed
qed

lemma gather_map_Inr: "gather (map (\<lambda>x. Inr (f x)) xs) = Inr (map f xs)"
  by (induction xs) simp_all

lemma generate_post_proposal_eq:
  "generate_post_proposal ev b h n =
     Inr (case proposal_attempt ev b h n of Inl e \<Rightarrow> error_proposal ev n e | Inr p \<Rightarrow> p)"
  by (simp add: generate_post_proposal_def try_except_def split: sum.splits)

lemma run_batches_eq:
  "run_batches ev b h bs =
     (map (\<lambda>n. case proposal_attempt ev b h n of Inl e \<Rightarrow> error_proposal ev n e | Inr p \<Rightarrow> p)
        (concat bs), None)"
proof (induction bs)
  case Nil
  show ?case by simp
next
  case (Cons a bs)
  have "gather (map (generate_post_proposal ev b h) a) =
      Inr (map (\<lambda>n. case proposal_attempt ev b h n of Inl e \<Rightarrow> error_proposal ev n e | Inr p \<Rightarrow> p) a)"
  proof -
    have "generate_post_proposal ev b h =
        (\<lambda>n. Inr (case proposal_attempt ev b h n of Inl e \<Rightarrow> error_proposal ev n e | Inr p \<Rightarrow> p))"
      by (rule ext) (rule generate_post_proposal_eq)
    then show ?thesis by (simp only: gather_map_Inr)
  qed
  with Cons show ?case by simp
qed


lemma nth_upto_from_1: "1 \<le> n \<Longrightarrow> n \<le> num \<Longrightarrow> [1..num] ! nat (n - 1) = n"
  by (simp add: nth_upto)


lemma inspiration_error_proposal:
  "inspiration (error_proposal ev n e) =
     Some [(''source'', ''Error in proposal '' @ str_int n), (''error'', str_of e)]"
  by (simp add: error_proposal_def)

lemma proposal_attempt_loads_raises:
  "generate_response ev (PostProposalCall brief bh n) = Inr r \<Longrightarrow> json_loads ev r = Inl e \<Longrightarrow>
   \<not> is_JSONDecodeError e \<Longrightarrow> proposal_attempt ev brief bh n = Inl e"
  by (simp add: proposal_attempt_def and_then_def try_except_only_def)

lemma proposal_attempt_call_fails:
  "generate_response ev (PostProposalCall brief bh n) = Inl e \<Longrightarrow> proposal_attempt ev brief bh n = Inl e"
  by (simp add: proposal_attempt_def and_then_def)



section \<open>The orchestrated pipeline and its stream\<close>

lemma apply_post_guardrails_image:
  "image_field (apply_post_guardrails p) = image_field p"
  by (simp add: apply_post_guardrails_def Let_def)

lemma process_proposals_eq:
  "process_proposals ev bh ps r =
     (map (\<lambda>p. apply_post_guardrails
              (p\<lparr>image_field := Some (case image_attempt ev bh (content p) of
                                         Inl e \<Rightarrow> placeholder_image | Inr img \<Rightarrow> img)\<rparr>)) ps, r)"
  by (induction ps) (simp_all add: generate_image_eq)

lemma process_request_eq:
  "process_request ev st request =
     (case generate_context_report ev (company_context request) (include_trends request)
             (include_competitors request) of
        Inl e \<Rightarrow> ([], Some e)
      | Inr context_report \<Rightarrow>
          (case generate_post_proposals ev context_report (brand_hero request)
                  (num_proposals (apply_request_guardrails st request)) of
             (proposals, r) \<Rightarrow>
               (map (\<lambda>p. apply_post_guardrails
                     (p\<lparr>image_field := Some (case image_attempt ev (brand_hero request) (content p) of
                                         Inl e \<Rightarrow> placeholder_image | Inr img \<Rightarrow> img)\<rparr>)) proposals, r)))"
proof -
  have f: "brand_hero (apply_request_guardrails st request) = brand_hero request"
    "company_context (apply_request_guardrails st request) = company_context request"
    "include_trends (apply_request_guardrails st request) = include_trends request"
    "include_competitors (apply_request_guardrails st request) = include_competitors request"
    by (simp_all add: apply_request_guardrails_def Let_def)
  show ?thesis
    by (simp add: process_request_def Let_def f process_proposals_eq split: sum.splits prod.splits)
qed

text \<open>
  C10. Every proposal that \<open>process_request\<close> yields carries an image: either the
  fixed placeholder or the image that a successful synthesis returned. No yielded proposal
  has \<open>image = None\<close>.
\<close>

theorem emitted_posts_have_image:
  "\<forall>p\<in>set (fst (process_request ev st request)).
     \<exists>img. image_field p = Some img
       \<and> (img = placeholder_image
            \<or> (\<exists>pc. image_attempt ev (brand_hero request) pc = Inr img))"
proof
  fix p
  assume "p \<in> set (fst (process_request ev st request))"
  then obtain q where p: "p = apply_post_guardrails
      (q\<lparr>image_field := Some (case image_attempt ev (brand_hero request) (content q) of
                                Inl e \<Rightarrow> placeholder_image | Inr img \<Rightarrow> img)\<rparr>)"
    by (auto simp: process_request_eq split: sum.splits prod.splits)
  show "\<exists>img. image_field p = Some img
       \<and> (img = placeholder_image
            \<or> (\<exists>pc. image_attempt ev (brand_hero request) pc = Inr img))"
    unfolding p apply_post_guardrails_image
    by (cases "image_attempt ev (brand_hero request) (content q)") auto
qed

theorem emitted_posts_have_image_witness:
  "length (fst (process_request env_no_image small_settings (request0 2))) = 2
   \<and> hd (fst (process_request env_no_image small_settings (request0 2)))
       \<in> set (fst (process_request env_no_image small_settings (request0 2)))
   \<and> (\<exists>img. image_field (hd (fst (process_request env_no_image small_settings (request0 2)))) = Some img)
   \<and> image_field (hd (fst (process_request env_no_image small_settings (request0 2))))
       = Some placeholder_image"
proof -
  have l: "length (fst (process_request env_no_image small_settings (request0 2))) = 2"
    by code_simp
  then have m: "hd (fst (process_request env_no_image small_settings (request0 2)))
       \<in> set (fst (process_request env_no_image small_settings (request0 2)))"
    by (intro hd_in_set) auto
  have i: "\<exists>img. image_field (hd (fst (process_request env_no_image small_settings (request0 2)))) = Some img"
    using emitted_posts_have_image [of env_no_image small_settings "request0 2"] m by blast
  have v: "image_field (hd (fst (process_request env_no_image small_settings (request0 2))))
       = Some placeholder_image"
    by code_simp
  from l m i v show ?thesis by blast
qed

lemma process_request_length:
  "snd (process_request ev st request) = None \<Longrightarrow>
   length (fst (process_request ev st request)) = nat (num_proposals (apply_request_guardrails st request))"
  by (auto simp: process_request_eq generate_post_proposals_def run_batches_eq concat_batches_from
      split: sum.splits prod.splits)

lemma first_some_none: "(\<And>x. f x = None) \<Longrightarrow> first_some (map f xs) = None"
  by (induction xs) simp_all

lemma opt_str_encodable: "unencodable (opt_str x) = None"
  by (cases x) (simp_all add: opt_str_def)

lemma post_content_encodable: "unencodable (post_content_dict c) = None"
  by (simp add: post_content_dict_def first_some_none opt_str_encodable)

lemma post_image_encodable: "unencodable (post_image_dict i) = None"
  by (simp add: post_image_dict_def opt_str_encodable)

lemma inspiration_encodable:
  "unencodable (PyDict (map (\<lambda>kv. (fst kv, PyStr (snd kv))) kvs)) = None"
  by (simp add: first_some_none)

lemma post_response_not_encodable: "unencodable (post_response_dict p) = Some ''datetime''"
proof -
  have i: "unencodable (case image_field p of None \<Rightarrow> PyNone | Some i \<Rightarrow> post_image_dict i) = None"
    by (cases "image_field p") (simp_all add: post_image_encodable)
  have n: "unencodable (case inspiration p of None \<Rightarrow> PyNone
      | Some kvs \<Rightarrow> PyDict (map (\<lambda>kv. (fst kv, PyStr (snd kv))) kvs)) = None"
  proof (cases "inspiration p")
    case None
    then show ?thesis by simp
  next
    case (Some kvs)
    then show ?thesis using inspiration_encodable [of kvs] by simp
  qed
  show ?thesis
    by (simp add: post_response_dict_def post_content_encodable i n)
qed

lemma emit_line_plain: "post r = None \<Longrightarrow> emit_line r = Inr r"
  by (simp add: emit_line_def and_then_def json_dumps_def stream_response_dict_def
      opt_str_encodable)

lemma emit_line_proposal:
  "emit_line (in_progress_event p) = Inl (TypeError ''Object of type datetime is not JSON serializable'')"
  by (simp add: emit_line_def and_then_def json_dumps_def stream_response_dict_def
      opt_str_encodable in_progress_event_def post_response_not_encodable)

lemma emit_line_fixed:
  "emit_line started_event = Inr started_event"
  "emit_line (completed_event n) = Inr (completed_event n)"
  "emit_line (error_event e) = Inr (error_event e)"
  by (simp_all add: emit_line_plain started_event_def completed_event_def error_event_def)

lemma stream_without_orchestrator:
  "orchestrator_init ev = Some e \<Longrightarrow> generate_posts_stream ev st request = ([error_event e], None)"
  by (simp add: generate_posts_stream_def stream_attempt_def emit_line_fixed)

lemma stream_of_failed_request:
  "orchestrator_init ev = None \<Longrightarrow> process_request ev st request = ([], Some e) \<Longrightarrow>
   generate_posts_stream ev st request = ([started_event, error_event e], None)"
  by (simp add: generate_posts_stream_def stream_attempt_def emit_line_fixed)

lemma stream_of_empty_request:
  "orchestrator_init ev = None \<Longrightarrow> process_request ev st request = ([], None) \<Longrightarrow>
   generate_posts_stream ev st request =
     ([started_event, completed_event (num_proposals (apply_request_guardrails st request))], None)"
  by (simp add: generate_posts_stream_def stream_attempt_def emit_line_fixed)

lemma stream_ends_at_first_proposal:
  "orchestrator_init ev = None \<Longrightarrow> process_request ev st request = (p # ps, r) \<Longrightarrow>
   generate_posts_stream ev st request =
     ([started_event,
       error_event (TypeError ''Object of type datetime is not JSON serializable'')], None)"
  by (simp add: generate_posts_stream_def stream_attempt_def emit_line_fixed emit_line_proposal)

lemma stream_follows_protocol:
  assumes "orchestrator_init ev = None"
  shows "protocol_ok (map status (fst (generate_posts_stream ev st request)))"
proof -
  obtain posts r where pr: "process_request ev st request = (posts, r)"
    by (cases "process_request ev st request")
  show ?thesis
  proof (cases posts)
    case Nil
    then show ?thesis
      using assms pr
      by (cases r)
        (simp_all add: stream_of_empty_request stream_of_failed_request started_event_def
          completed_event_def error_event_def)
  next
    case (Cons p ps)
    then show ?thesis
      using assms pr
      by (simp add: stream_ends_at_first_proposal started_event_def error_event_def)
  qed
qed

text \<open>
  C4. A run in which nothing fails: the orchestrator is constructed, the context report
  and the brief are produced, and \<open>process_request\<close> yields the ten proposals of the
  request without an exception. The stream of the route for it is \<open>started\<close> followed by
  \<open>error\<close>: \<open>json.dumps\<close> raises \<open>TypeError\<close> on the dictionary of the first proposal,
  which keeps the \<open>datetime\<close> of \<open>created_at\<close>, so no \<open>in_progress\<close> event and no
  \<open>completed\<close> event is sent.
\<close>

theorem successful_run_streams_error:
  "orchestrator_init env_ok = None
   \<and> length (fst (process_request env_ok default_settings (request0 10))) = 10
   \<and> snd (process_request env_ok default_settings (request0 10)) = None
   \<and> generate_posts_stream env_ok default_settings (request0 10) =
       ([started_event,
         error_event (TypeError ''Object of type datetime is not JSON serializable'')], None)
   \<and> map status (fst (generate_posts_stream env_ok default_settings (request0 10)))
       = [''started'', ''error'']"
proof -
  have a: "orchestrator_init env_ok = None"
    by (simp add: env_ok_def)
  have l: "length (fst (process_request env_ok default_settings (request0 10))) = 10"
    by code_simp
  have r: "snd (process_request env_ok default_settings (request0 10)) = None"
    by code_simp
  from l obtain p ps where "fst (process_request env_ok default_settings (request0 10)) = p # ps"
    by (cases "fst (process_request env_ok default_settings (request0 10))") auto
  with r have pr: "process_request env_ok default_settings (request0 10) = (p # ps, None)"
    by (simp add: prod_eq_iff)
  have g: "generate_posts_stream env_ok default_settings (request0 10) =
       ([started_event,
         error_event (TypeError ''Object of type datetime is not JSON serializable'')], None)"
    using stream_ends_at_first_proposal [OF a pr] .
  from a l r g show ?thesis
    by (simp add: started_event_def error_event_def)
qed

section \<open>Batching discipline\<close>

lemma batches_from_unfold:
  "batches_from s num =
     (if s < num then [s + 1..min (s + batch_size) num] # batches_from (s + batch_size) num else [])"
  by (subst batches_from.simps) (simp add: Let_def map_succ_upto)

lemma full_but_last_batches: "full_but_last (batches_from s num)"
proof (induction s num rule: batches_from.induct)
  case (1 batch_start num)
  show ?case
  proof (cases "batch_start < num")
    case False
    then show ?thesis by (subst batches_from_unfold) simp
  next
    case True
    note lt = True
    show ?thesis
    proof (cases "batch_start + batch_size < num")
      case True
      have "batches_from (batch_start + batch_size) num =
          [batch_start + batch_size + 1..min (batch_start + batch_size + batch_size) num]
          # batches_from (batch_start + batch_size + batch_size) num"
        using batches_from_unfold [of "batch_start + batch_size" num] True by simp
      then obtain b' bs' where r: "batches_from (batch_start + batch_size) num = b' # bs'"
        by blast
      have "full_but_last (b' # bs')" using 1 lt r by simp
      moreover have "int (length [batch_start + 1..min (batch_start + batch_size) num]) = batch_size"
        using True by (simp add: batch_size_def)
      ultimately show ?thesis
        using lt r by (subst batches_from_unfold) simp
    next
      case False
      then have r: "batches_from (batch_start + batch_size) num = []"
        by (subst batches_from_unfold) simp
      have "[batch_start + 1..min (batch_start + batch_size) num] \<noteq> []"
        "int (length [batch_start + 1..min (batch_start + batch_size) num]) \<le> batch_size"
        using lt False by (simp_all add: batch_size_def)
      then show ?thesis
        using lt r by (subst batches_from_unfold) simp
    qed
  qed
qed

lemma full_but_last_bounds:
  "full_but_last bs \<Longrightarrow> b \<in> set bs \<Longrightarrow> b \<noteq> [] \<and> int (length b) \<le> batch_size"
  by (induction bs rule: full_but_last.induct) (auto simp: batch_size_def)

lemma discipline_creates:
  "batch_discipline pending (map Create b @ rest) = batch_discipline (pending @ b) rest"
  by (induction b arbitrary: pending) simp_all

lemma discipline_yields:
  "batch_discipline [] (map Yield b @ rest) = batch_discipline [] rest"
  by (induction b) simp_all

lemma discipline_batch:
  "batch_discipline [] (batch_actions b @ rest) =
     (b \<noteq> [] \<and> int (length b) \<le> batch_size \<and> batch_discipline [] rest)"
  by (simp add: batch_actions_def discipline_creates discipline_yields)

lemma discipline_batches:
  "(\<And>b. b \<in> set bs \<Longrightarrow> b \<noteq> [] \<and> int (length b) \<le> batch_size) \<Longrightarrow>
   batch_discipline [] (concat (map batch_actions bs))"
  by (induction bs) (simp_all add: discipline_batch)

lemma gathered_creates: "gathered (map Create b @ rest) = gathered rest"
  by (induction b) simp_all

lemma gathered_yields: "gathered (map Yield b @ rest) = gathered rest"
  by (induction b) simp_all

lemma gathered_batches: "gathered (concat (map batch_actions bs)) = bs"
  by (induction bs) (simp_all add: batch_actions_def gathered_creates gathered_yields)

text \<open>
  C6. For every count, the batches of \<open>generate_post_proposals\<close> are consecutive
  segments of \<open>1..count\<close>, each of size 3 but the last, which has between one and three
  entries. Along the schedule, each \<open>gather\<close> awaits exactly the coroutines created since
  the previous one (all tasks of a batch are dispatched before any is awaited), the tasks
  awaited together are those of one batch and never more than the batch size, and the
  coroutines of the next batch are created only after the \<open>gather\<close> of the previous batch
  has returned.
\<close>

theorem batches_partition_and_discipline:
  "concat (batches_from 0 count) = [1..count]
   \<and> full_but_last (batches_from 0 count)
   \<and> gathered (proposals_schedule count) = batches_from 0 count
   \<and> batch_discipline [] (proposals_schedule count)"
proof -
  have a: "concat (batches_from 0 count) = [1..count]"
    using concat_batches_from [of 0 count] by simp
  have b: "full_but_last (batches_from 0 count)"
    by (rule full_but_last_batches)
  have c: "gathered (proposals_schedule count) = batches_from 0 count"
    by (simp add: proposals_schedule_def gathered_batches)
  have d: "batch_discipline [] (proposals_schedule count)"
    using full_but_last_bounds [OF b]
    by (simp add: proposals_schedule_def discipline_batches)
  from a b c d show ?thesis by blast
qed

section \<open>Post-generation processing is sequential\<close>

lemma duration_slow_image:
  "duration (slow_image d i x) a =
     (if a = Await_image i then duration d a + x else duration d a)"
  by (cases a) (simp_all add: slow_image_def)

lemma emissions_unaffected:
  "Await_image i \<notin> set s \<Longrightarrow> emissions (slow_image d i x) t s = emissions d t s"
proof (induction s arbitrary: t)
  case Nil
  show ?case by simp
next
  case (Cons a s)
  then show ?case by (cases a) (auto simp: slow_image_def)
qed

lemma emissions_shift:
  "emissions d (t + x) s = map (\<lambda>e. (fst e, snd e + x)) (emissions d t s)"
proof (induction s arbitrary: t)
  case Nil
  show ?case by simp
next
  case (Cons a s)
  have sw: "t + x + k = (t + k) + x" for k by simp
  show ?case by (cases a) (simp_all only: emissions.simps sw Cons.IH list.map fst_conv snd_conv)
qed

lemma emissions_append:
  "emissions d t (s1 @ s2) = emissions d t s1 @ emissions d (t + sum_list (map (duration d) s1)) s2"
proof (induction s1 arbitrary: t)
  case Nil
  show ?case by simp
next
  case (Cons a s1)
  show ?case by (cases a) (simp_all add: Cons.IH add.assoc)
qed

lemma elapsed_unaffected:
  "Await_image i \<notin> set s \<Longrightarrow>
     sum_list (map (duration (slow_image d i x)) s) = sum_list (map (duration d) s)"
  by (induction s) (auto simp: duration_slow_image)

lemma emissions_fst: "e \<in> set (emissions d t s) \<Longrightarrow> Emit (fst e) \<in> set s"
proof (induction s arbitrary: t)
  case Nil
  then show ?case by simp
next
  case (Cons a s)
  then show ?case by (cases a) auto
qed


lemma with_consumer_append:
  "with_consumer body (xs @ ys) = with_consumer body xs @ with_consumer body ys"
  by (induction body xs rule: with_consumer.induct) simp_all

lemma with_consumer_creates: "with_consumer body (map Create b) = map Create b"
  by (induction b) simp_all

lemma with_consumer_yields:
  "with_consumer (\<lambda>n. [Await_image n, Emit n]) (map Yield b) = concat (map segment b)"
  by (induction b) (simp_all add: segment_def)

lemma with_consumer_batches:
  "with_consumer (\<lambda>n. [Await_image n, Emit n]) (concat (map batch_actions bs))
     = concat (map batch_run bs)"
  by (induction bs)
    (simp_all add: with_consumer_append batch_actions_def batch_run_def with_consumer_creates
      with_consumer_yields)

lemma request_schedule_eq:
  "request_schedule st request =
     Await_context_report # Await_content_brief
     # concat (map batch_run (batches_from 0 (num_proposals (apply_request_guardrails st request))))"
  by (simp add: request_schedule_def proposals_schedule_def with_consumer_batches)

lemma batch_run_mentions:
  "(Await_image n \<in> set (batch_run b) \<longleftrightarrow> n \<in> set b)
   \<and> (Emit n \<in> set (batch_run b) \<longleftrightarrow> n \<in> set b)"
  by (auto simp: batch_run_def segment_def)

lemma runs_mention:
  "(Await_image n \<in> set (concat (map batch_run bs)) \<longleftrightarrow> n \<in> set (concat bs))
   \<and> (Emit n \<in> set (concat (map batch_run bs)) \<longleftrightarrow> n \<in> set (concat bs))"
  by (induction bs) (auto simp: batch_run_mentions)

lemma segments_mention:
  "(Await_image n \<in> set (concat (map segment b)) \<longleftrightarrow> n \<in> set b)
   \<and> (Emit n \<in> set (concat (map segment b)) \<longleftrightarrow> n \<in> set b)"
  by (induction b) (auto simp: segment_def)


lemma slow_split:
  assumes pre: "Await_image i \<notin> set pre" and bk: "Await_image i \<notin> set back"
    and before: "\<And>n. Emit n \<in> set pre \<Longrightarrow> n < i"
    and after: "\<And>n. Emit n \<in> set back \<Longrightarrow> i \<le> n"
  shows "emissions (slow_image d i x) t (pre @ Await_image i # back)
       = map (delayed_from i x) (emissions d t (pre @ Await_image i # back))"
proof -
  let ?t1 = "t + sum_list (map (duration d) pre) + dur_image d i"
  have l: "emissions (slow_image d i x) t (pre @ Await_image i # back)
      = emissions d t pre @ emissions d (?t1 + x) back"
  proof -
    have di: "dur_image (slow_image d i x) i = dur_image d i + x"
      by (simp add: slow_image_def)
    show ?thesis
      by (simp add: emissions_append emissions_unaffected [OF pre] elapsed_unaffected [OF pre]
          emissions_unaffected [OF bk] di add.assoc)
  qed
  have r: "emissions d t (pre @ Await_image i # back)
      = emissions d t pre @ emissions d ?t1 back"
    by (simp add: emissions_append add.assoc)
  have a: "map (delayed_from i x) (emissions d t pre) = emissions d t pre"
  proof (rule map_idI)
    fix e assume "e \<in> set (emissions d t pre)"
    then have "fst e < i" using emissions_fst before by blast
    then show "delayed_from i x e = e" by (simp add: delayed_from_def)
  qed
  have b: "map (delayed_from i x) (emissions d ?t1 back) = emissions d (?t1 + x) back"
  proof -
    have "map (delayed_from i x) (emissions d ?t1 back)
        = map (\<lambda>e. (fst e, snd e + x)) (emissions d ?t1 back)"
    proof (rule map_cong [OF refl])
      fix e assume "e \<in> set (emissions d ?t1 back)"
      then have "i \<le> fst e" using emissions_fst after by blast
      then show "delayed_from i x e = (fst e, snd e + x)" by (simp add: delayed_from_def)
    qed
    then show ?thesis by (simp only: emissions_shift)
  qed
  show ?thesis by (simp only: l r map_append a b)
qed

lemma runs_delayed:
  assumes srt: "sorted_wrt (<) (concat bs)" and mem: "i \<in> set (concat bs)"
    and fr: "Await_image i \<notin> set front" "\<And>n. Emit n \<notin> set front"
  shows "emissions (slow_image d i x) t (front @ concat (map batch_run bs))
       = map (delayed_from i x) (emissions d t (front @ concat (map batch_run bs)))"
proof -
  from mem obtain b where "b \<in> set bs" "i \<in> set b" by auto
  then obtain bs1 bs2 b1 b2 where bs: "bs = bs1 @ (b1 @ i # b2) # bs2"
    by (metis split_list)
  let ?b = "b1 @ i # b2"
  let ?pre = "front @ concat (map batch_run bs1) @ map Create ?b @ [Gather ?b]
      @ concat (map segment b1) @ [Yield i]"
  let ?post = "Emit i # concat (map segment b2) @ concat (map batch_run bs2)"
  have dec: "front @ concat (map batch_run bs) = ?pre @ Await_image i # ?post"
    by (simp add: bs batch_run_def segment_def)
  have c: "concat bs = (concat bs1 @ b1) @ i # (b2 @ concat bs2)"
    by (simp add: bs)
  have lt: "\<And>n. n \<in> set (concat bs1) \<union> set b1 \<Longrightarrow> n < i"
    and gt: "\<And>n. n \<in> set b2 \<union> set (concat bs2) \<Longrightarrow> i < n"
    using srt unfolding c by (auto simp: sorted_wrt_append)
  have p1: "Await_image i \<notin> set ?pre"
    using fr(1) lt [of i] by (auto simp: runs_mention segments_mention simp del: set_concat)
  have p2: "Await_image i \<notin> set ?post"
    using gt [of i] by (auto simp: runs_mention segments_mention simp del: set_concat)
  have p3: "n < i" if "Emit n \<in> set ?pre" for n
    using that fr(2) lt [of n] by (auto simp: runs_mention segments_mention simp del: set_concat)
  have p4: "i \<le> n" if "Emit n \<in> set ?post" for n
    using that gt [of n] by (auto simp: runs_mention segments_mention simp del: set_concat)
  show ?thesis
    unfolding dec by (rule slow_split [OF p1 p2 p3 p4])
qed

lemma emitted_any_time: "map fst (emissions d t s) = map fst (emissions d 0 s)"
  using emissions_shift [of d 0 t s] by (simp add: comp_def)

lemma emitted_append:
  "map fst (emissions d t (s1 @ s2)) = map fst (emissions d 0 s1) @ map fst (emissions d 0 s2)"
  using emitted_any_time [of d t s1] emitted_any_time [of d _ s2]
  by (simp add: emissions_append)

lemma emitted_batch_run: "map fst (emissions d 0 (batch_run b)) = b"
proof -
  have seg: "map fst (emissions d 0 (concat (map segment b))) = b"
    by (induction b) (simp_all add: emitted_append, simp add: segment_def)
  have cr: "emissions d u (map Create b @ rest) = emissions d u rest" for u rest
    by (induction b) simp_all
  have "map fst (emissions d 0 (batch_run b))
      = map fst (emissions d (0 + duration d (Gather b)) (concat (map segment b)))"
    unfolding batch_run_def cr by simp
  then show ?thesis
    using emitted_any_time seg by metis
qed

lemma emitted_in_order:
  "map fst (emissions d t (concat (map batch_run bs))) = concat bs"
  by (induction bs arbitrary: t) (simp_all add: emitted_append emitted_batch_run)


text \<open>
  C9, as amended. \<open>process_request\<close> handles the proposals one at a time, in the order
  the generator yields them, and awaits the image of each before it takes the next. So the
  proposals are emitted in the order \<open>1..count\<close>, and making the image synthesis of
  proposal \<open>i\<close> slower by \<open>x\<close> delays the emission of proposal \<open>i\<close> and of every later
  proposal by exactly \<open>x\<close>, and of no earlier one.
\<close>

theorem image_synthesis_delays_later_proposals:
  assumes i: "i \<in> {1..num_proposals (apply_request_guardrails st request)}"
  shows "emissions (slow_image d i x) 0 (request_schedule st request)
       = map (delayed_from i x) (emissions d 0 (request_schedule st request))
     \<and> map fst (emissions d 0 (request_schedule st request))
       = [1..num_proposals (apply_request_guardrails st request)]"
proof -
  let ?n = "num_proposals (apply_request_guardrails st request)"
  let ?bs = "batches_from 0 ?n"
  have c: "concat ?bs = [1..?n]"
    using concat_batches_from [of 0 ?n] by simp
  have srt: "sorted_wrt (<) (concat ?bs)"
    unfolding c by (simp add: strict_sorted_iff)
  have mem: "i \<in> set (concat ?bs)"
    unfolding c using i by simp
  have sch: "request_schedule st request
      = [Await_context_report, Await_content_brief] @ concat (map batch_run ?bs)"
    by (simp add: request_schedule_eq)
  have a: "emissions (slow_image d i x) 0 (request_schedule st request)
       = map (delayed_from i x) (emissions d 0 (request_schedule st request))"
    unfolding sch by (rule runs_delayed [OF srt mem]) simp_all
  have b: "map fst (emissions d 0 (request_schedule st request)) = [1..?n]"
    unfolding sch by (simp add: emitted_in_order c)
  from a b show ?thesis by blast
qed

theorem image_synthesis_delays_later_proposals_witness:
  "(1::int) \<in> {1..num_proposals (apply_request_guardrails default_settings (request0 10))}
   \<and> emissions (slow_image instant 1 100) 0 (request_schedule default_settings (request0 10))
       = map (delayed_from 1 100) (emissions instant 0 (request_schedule default_settings (request0 10)))
   \<and> map fst (emissions instant 0 (request_schedule default_settings (request0 10))) = [1..10]"
proof -
  have n: "num_proposals (apply_request_guardrails default_settings (request0 10)) = 10"
    by (simp add: apply_request_guardrails_def default_settings_def request0_def)
  have "(1::int) \<in> {1..num_proposals (apply_request_guardrails default_settings (request0 10))}"
    unfolding n by simp
  from this image_synthesis_delays_later_proposals [OF this, of instant 100]
  show ?thesis unfolding n by blast
qed

text \<open>
  The claim as stated fails: proposals 1 and 2 come out of the same \<open>gather\<close>, only the
  image of proposal 1 is slow, and the emission of proposal 2 waits for it.
\<close>

theorem slow_image_delays_sibling_counterexample:
  "emit_time (slow_image instant 1 100) (request_schedule default_settings (request0 10)) 2
     \<noteq> emit_time instant (request_schedule default_settings (request0 10)) 2
   \<and> emit_time instant (request_schedule default_settings (request0 10)) 2 = Some 0
   \<and> emit_time (slow_image instant 1 100) (request_schedule default_settings (request0 10)) 2
       = Some 100"
  by code_simp

section \<open>The events of the stream generator\<close>

text \<open>
  For every run of the generator it is given, \<open>stream_generator\<close> sends \<open>started\<close>, one
  line for each item, and then \<open>completed\<close> with the number of items, or \<open>error\<close> if the
  generator raised. The line of an item holds the error text of \<open>json.dumps\<close> only, since
  \<open>format_sse_event\<close> catches the \<open>TypeError\<close> that the \<open>datetime\<close> of the proposal
  causes.
\<close>

lemma format_sse_event_plain:
  "post data = None \<Longrightarrow> format_sse_event data = Inr (Data data)"
  by (simp add: format_sse_event_def try_except_def and_then_def json_dumps_def
      stream_response_dict_def opt_str_encodable)

lemma format_sse_event_proposal:
  "format_sse_event (in_progress_event p)
     = Inr (Error_data ''Object of type datetime is not JSON serializable'')"
  by (simp add: format_sse_event_def try_except_def and_then_def json_dumps_def
      stream_response_dict_def opt_str_encodable in_progress_event_def post_response_not_encodable)

lemma stream_items_eq:
  "stream_items count ps r =
     (map (\<lambda>p. Error_data ''Object of type datetime is not JSON serializable'') ps
      @ (case r of None \<Rightarrow> [Data (completed_event (int (count + length ps)))] | Some e \<Rightarrow> []), r)"
proof (induction ps arbitrary: count)
  case Nil
  show ?case
    by (simp add: format_sse_event_plain completed_event_def split: option.splits)
next
  case (Cons p ps)
  show ?case
    by (simp add: Cons.IH format_sse_event_proposal split: option.splits)
qed

lemma stream_generator_sequence:
  "stream_generator (ps, r) =
     (Data started_event
      # map (\<lambda>p. Error_data ''Object of type datetime is not JSON serializable'') ps
      @ [case r of None \<Rightarrow> Data (completed_event (int (length ps)))
                 | Some e \<Rightarrow> Data (error_event e)], None)"
  by (simp add: stream_generator_def stream_items_eq format_sse_event_plain started_event_def
      error_event_def split: option.splits)


end
